theory Spec2Isabelle
  imports Complex_Main
begin

section \<open>The calculator's formula model (calc/common.ts)\<close>

subsection \<open>Enumerations\<close>

text \<open>The directive a token returns to the formula after an append attempt.\<close>

datatype AppendResult =
    replaced
  | failed
  | createAfter
  | insertAnsAndCreate
  | deleteAndCreate
  | createBefore
  | backspace

text \<open>
  The type \<open>Digit\<close> of the source is the union of the eleven string literals
  \<open>'0'\<close> .. \<open>'9'\<close> and \<open>'.'\<close>; \<open>digitString\<close> gives the string a value of the type is.
\<close>

datatype Digit = D0 | D1 | D2 | D3 | D4 | D5 | D6 | D7 | D8 | D9 | Dot

fun digitString :: "Digit \<Rightarrow> string" where
  "digitString D0 = ''0''"
| "digitString D1 = ''1''"
| "digitString D2 = ''2''"
| "digitString D3 = ''3''"
| "digitString D4 = ''4''"
| "digitString D5 = ''5''"
| "digitString D6 = ''6''"
| "digitString D7 = ''7''"
| "digitString D8 = ''8''"
| "digitString D9 = ''9''"
| "digitString Dot = ''.''"

text \<open>
  \<open>const enum Precedence\<close>: the members are numbered in the order of declaration,
  and the code compares them with \<open>>=\<close> and \<open><\<close>.
\<close>

datatype Precedence = prec_eq | prec_open | prec_add | prec_mul | prec_pow | prec_unary | prec_symbol

fun precedenceValue :: "Precedence \<Rightarrow> nat" where
  "precedenceValue prec_eq = 0"
| "precedenceValue prec_open = 1"
| "precedenceValue prec_add = 2"
| "precedenceValue prec_mul = 3"
| "precedenceValue prec_pow = 4"
| "precedenceValue prec_unary = 5"
| "precedenceValue prec_symbol = 6"

datatype BinOp = op_add | op_sub | op_mul | op_div | op_pow | op_ee

datatype UnOp = op_reciprocal | op_sqrt | op_neg

datatype SymOp = op_ans

text \<open>
  The string each enumeration member stands for. A \<open>string\<close> is a list of bytes, so the
  characters outside ASCII are written as the UTF-8 bytes the source file holds:
  U+2212 (minus), U+00D7 (times), U+00F7 (division), U+221A (root), U+00B1 (plus-minus)
  and U+1D639 (italic x).
\<close>

fun binOpString :: "BinOp \<Rightarrow> string" where
  "binOpString op_add = ''+''"
| "binOpString op_sub = [CHR 0xE2, CHR 0x88, CHR 0x92]"
| "binOpString op_mul = [CHR 0xC3, CHR 0x97]"
| "binOpString op_div = [CHR 0xC3, CHR 0xB7]"
| "binOpString op_pow = ''^''"
| "binOpString op_ee = ''E''"

fun unOpString :: "UnOp \<Rightarrow> string" where
  "unOpString op_reciprocal = ''1/'' @ [CHR 0xF0, CHR 0x9D, CHR 0x98, CHR 0xB9]"
| "unOpString op_sqrt = [CHR 0xE2, CHR 0x88, CHR 0x9A]"
| "unOpString op_neg = [CHR 0xC2, CHR 0xB1]"

fun symOpString :: "SymOp \<Rightarrow> string" where
  "symOpString op_ans = ''Ans''"

subsection \<open>Tokens\<close>

text \<open>
  The seven classes implementing \<open>Token\<close>. A \<open>NumberToken\<close> holds the fields
  \<open>negative\<close> and \<open>number\<close>, a \<open>GroupToken\<close> the field \<open>tokens\<close>, the operator
  tokens the field \<open>op\<close>.
\<close>

datatype Token =
    NumberToken bool string
  | BinaryToken BinOp
  | UnaryToken UnOp
  | GroupToken "Token list"
  | SymbolToken SymOp
  | OpenToken
  | EqToken

text \<open>The constructor \<open>new NumberToken(init)\<close>.\<close>

definition NumberToken_new :: "Digit \<Rightarrow> Token" where
  "NumberToken_new init = NumberToken False (if init = Dot then ''0.'' else digitString init)"

text \<open>
  The append methods mutate the receiver and return a directive; the model returns the
  directive together with the receiver as it is after the call.
\<close>

fun Token_appendDigit :: "Digit \<Rightarrow> Token \<Rightarrow> AppendResult \<times> Token" where
  "Token_appendDigit digit (NumberToken negative number) =
     (if digit = Dot then
        (if CHR ''.'' \<in> set number then (failed, NumberToken negative number)
         else (replaced, NumberToken negative (number @ digitString digit)))
      else if number = ''0'' then (replaced, NumberToken negative ('''' @ digitString digit))
      else (replaced, NumberToken negative (number @ digitString digit)))"
| "Token_appendDigit digit (BinaryToken op) = (createAfter, BinaryToken op)"
| "Token_appendDigit digit (UnaryToken op) = (failed, UnaryToken op)"
| "Token_appendDigit digit (GroupToken tokens) = (failed, GroupToken tokens)"
| "Token_appendDigit digit (SymbolToken op) = (deleteAndCreate, SymbolToken op)"
| "Token_appendDigit digit OpenToken = (createAfter, OpenToken)"
| "Token_appendDigit digit EqToken = (createAfter, EqToken)"

fun Token_appendBinary :: "BinOp \<Rightarrow> Token \<Rightarrow> AppendResult \<times> Token" where
  "Token_appendBinary op' (NumberToken negative number) = (createAfter, NumberToken negative number)"
| "Token_appendBinary op' (BinaryToken op) = (replaced, BinaryToken op')"
| "Token_appendBinary op' (UnaryToken op) = (createAfter, UnaryToken op)"
| "Token_appendBinary op' (GroupToken tokens) = (createAfter, GroupToken tokens)"
| "Token_appendBinary op' (SymbolToken op) = (createAfter, SymbolToken op)"
| "Token_appendBinary op' OpenToken = (failed, OpenToken)"
| "Token_appendBinary op' EqToken = (insertAnsAndCreate, EqToken)"

fun Token_appendUnary :: "UnOp \<Rightarrow> Token \<Rightarrow> AppendResult \<times> Token" where
  "Token_appendUnary op' (NumberToken negative number) =
     (if op' = op_neg then (replaced, NumberToken (\<not> negative) number)
      else (createAfter, NumberToken negative number))"
| "Token_appendUnary op' (BinaryToken op) = (failed, BinaryToken op)"
| "Token_appendUnary op' (UnaryToken op) =
     (if op' = op \<and> (op' = op_neg \<or> op' = op_reciprocal) then (backspace, UnaryToken op)
      else (createAfter, UnaryToken op))"
| "Token_appendUnary op' (GroupToken tokens) = (createAfter, GroupToken tokens)"
| "Token_appendUnary op' (SymbolToken op) = (createAfter, SymbolToken op)"
| "Token_appendUnary op' OpenToken = (failed, OpenToken)"
| "Token_appendUnary op' EqToken = (insertAnsAndCreate, EqToken)"

fun Token_appendSymbol :: "Token \<Rightarrow> AppendResult \<times> Token" where
  "Token_appendSymbol (NumberToken negative number) = (deleteAndCreate, NumberToken negative number)"
| "Token_appendSymbol (BinaryToken op) = (createAfter, BinaryToken op)"
| "Token_appendSymbol (UnaryToken op) = (failed, UnaryToken op)"
| "Token_appendSymbol (GroupToken tokens) = (failed, GroupToken tokens)"
| "Token_appendSymbol (SymbolToken op) = (deleteAndCreate, SymbolToken op)"
| "Token_appendSymbol OpenToken = (createAfter, OpenToken)"
| "Token_appendSymbol EqToken = (createAfter, EqToken)"

fun Token_appendOpen :: "Token \<Rightarrow> AppendResult \<times> Token" where
  "Token_appendOpen (NumberToken negative number) = (createBefore, NumberToken negative number)"
| "Token_appendOpen (BinaryToken op) = (createAfter, BinaryToken op)"
| "Token_appendOpen (UnaryToken op) = (failed, UnaryToken op)"
| "Token_appendOpen (GroupToken tokens) = (failed, GroupToken tokens)"
| "Token_appendOpen (SymbolToken op) = (createBefore, SymbolToken op)"
| "Token_appendOpen OpenToken = (createAfter, OpenToken)"
| "Token_appendOpen EqToken = (createAfter, EqToken)"

fun Token_appendClose :: "Token \<Rightarrow> AppendResult \<times> Token" where
  "Token_appendClose (NumberToken negative number) = (createAfter, NumberToken negative number)"
| "Token_appendClose (BinaryToken op) = (failed, BinaryToken op)"
| "Token_appendClose (UnaryToken op) = (createAfter, UnaryToken op)"
| "Token_appendClose (GroupToken tokens) = (createAfter, GroupToken tokens)"
| "Token_appendClose (SymbolToken op) = (createAfter, SymbolToken op)"
| "Token_appendClose OpenToken = (failed, OpenToken)"
| "Token_appendClose EqToken = (failed, EqToken)"

text \<open>\<open>NumberToken.backspace\<close>: returns whether the token is to be removed.\<close>

fun NumberToken_backspace :: "bool \<Rightarrow> string \<Rightarrow> bool \<times> Token" where
  "NumberToken_backspace negative number =
     (if length number > 1 then (False, NumberToken negative (take (length number - 1) number))
      else (True, NumberToken negative number))"

fun Token_precedence :: "Token \<Rightarrow> Precedence" where
  "Token_precedence (NumberToken negative number) = prec_symbol"
| "Token_precedence (BinaryToken op) =
     (case op of op_add \<Rightarrow> prec_add | op_sub \<Rightarrow> prec_add
               | op_mul \<Rightarrow> prec_mul | op_div \<Rightarrow> prec_mul
               | op_pow \<Rightarrow> prec_pow | op_ee \<Rightarrow> prec_pow)"
| "Token_precedence (UnaryToken op) = prec_unary"
| "Token_precedence (GroupToken tokens) = prec_symbol"
| "Token_precedence (SymbolToken op) = prec_symbol"
| "Token_precedence OpenToken = prec_open"
| "Token_precedence EqToken = prec_eq"

subsection \<open>The numbers of the runtime\<close>

text \<open>
  The numbers are the IEEE 754 doubles of the JavaScript runtime, and their operations
  are not code of this program. The evaluator takes them as a parameter: a type \<open>'n\<close> of
  numbers and a record of the operations the source calls on them (\<open>js_literal\<close> is the
  value of an integer literal such as \<open>0\<close>, \<open>1\<close> or \<open>10\<close>; \<open>js_NaN\<close> is what
  \<open>undefined\<close> converts to where a number is expected).
\<close>

record 'n Runtime =
  js_parseFloat :: "string \<Rightarrow> 'n"
  js_literal :: "int \<Rightarrow> 'n"
  js_NaN :: "'n"
  js_add :: "'n \<Rightarrow> 'n \<Rightarrow> 'n"
  js_sub :: "'n \<Rightarrow> 'n \<Rightarrow> 'n"
  js_mul :: "'n \<Rightarrow> 'n \<Rightarrow> 'n"
  js_div :: "'n \<Rightarrow> 'n \<Rightarrow> 'n"
  js_neg :: "'n \<Rightarrow> 'n"
  Math_pow :: "'n \<Rightarrow> 'n \<Rightarrow> 'n"
  Math_sqrt :: "'n \<Rightarrow> 'n"

text \<open>
  A slot of the evaluator's number stack, and an argument of \<open>evaluate\<close>, holds a number
  or, when it was read from outside the array, \<open>undefined\<close>.
\<close>

datatype 'n jsvalue = Undefined | Number 'n

fun toNumber :: "'n Runtime \<Rightarrow> 'n jsvalue \<Rightarrow> 'n" where
  "toNumber R Undefined = js_NaN R"
| "toNumber R (Number x) = x"

text \<open>\<open>args[i]\<close>: reading past the end of the arguments gives \<open>undefined\<close>.\<close>

definition arg :: "'n jsvalue list \<Rightarrow> nat \<Rightarrow> 'n jsvalue" where
  "arg args i = (if i < length args then args ! i else Undefined)"

record 'n CalcHistory =
  formula :: "Token list"
  ans :: "'n"

record 'n Environment =
  historyIndices :: "int list"
  history :: "'n CalcHistory list"
  partialAns :: "'n"

datatype error =
    ShouldNeverEvaluateOpenToken
  | ShouldNeverEvaluateEqToken
  | CannotSerializeTokenFrom string
  | UnknownActionForAppendingClose
  | PayloadOutsideDeclaredType

subsection \<open>Reverse Polish notation\<close>

text \<open>
  \<open>toRPN\<close>. The operator stack \<open>ops\<close> is a list whose head is the top of the stack
  (the last element of the source's array), so \<open>ops.reverse()\<close>, the stack from its top
  down, is the list itself. \<open>toRPN_pop\<close> is the inner \<open>while ((op = ops.pop()))\<close>
  loop, \<open>toRPN_loop\<close> the \<open>for\<close> loop over the tokens.
\<close>

fun toRPN_pop :: "Precedence \<Rightarrow> Token list \<Rightarrow> Token list \<Rightarrow> Token list \<times> Token list" where
  "toRPN_pop precedence result [] = (result, [])"
| "toRPN_pop precedence result (op # ops) =
     (if precedenceValue (Token_precedence op) \<ge> precedenceValue precedence
      then toRPN_pop precedence (result @ [op]) ops
      else (result, op # ops))"

fun toRPN_loop :: "Token list \<Rightarrow> Token list \<Rightarrow> Token list \<Rightarrow> Token list \<times> Token list" where
  "toRPN_loop [] result ops = (result, ops)"
| "toRPN_loop (token # tokens) result ops =
     (let precedence = Token_precedence token in
      if precedence = prec_symbol \<or> precedence = prec_unary
      then toRPN_loop tokens (result @ [token]) ops
      else (case toRPN_pop precedence result ops of
              (result', ops') \<Rightarrow> toRPN_loop tokens result' (token # ops')))"

definition toRPN :: "Token list \<Rightarrow> Token list" where
  "toRPN tokens = (case toRPN_loop tokens [] [] of (result, ops) \<Rightarrow> result @ ops)"

lemma set_toRPN_pop:
  "toRPN_pop p result ops = (result', ops') \<Longrightarrow> set result' \<union> set ops' = set result \<union> set ops"
  by (induction p result ops rule: toRPN_pop.induct) (auto split: if_splits)

lemma set_toRPN_loop:
  "toRPN_loop tokens result ops = (result', ops')
   \<Longrightarrow> set result' \<union> set ops' = set tokens \<union> set result \<union> set ops"
proof (induction tokens result ops rule: toRPN_loop.induct)
  case (1 result ops)
  then show ?case by auto
next
  case (2 token tokens result ops)
  show ?case
  proof (cases "Token_precedence token = prec_symbol \<or> Token_precedence token = prec_unary")
    case True
    with 2(3) have "toRPN_loop tokens (result @ [token]) ops = (result', ops')"
      by (simp add: Let_def)
    from 2(1)[OF refl True this] show ?thesis by auto
  next
    case False
    obtain r o' where po: "toRPN_pop (Token_precedence token) result ops = (r, o')"
      by (cases "toRPN_pop (Token_precedence token) result ops")
    from po have s: "set r \<union> set o' = set result \<union> set ops" by (rule set_toRPN_pop)
    from 2(3) False po have l: "toRPN_loop tokens r (token # o') = (result', ops')"
      by (simp add: Let_def)
    from 2(2)[OF refl False po[symmetric] l] have
      "set result' \<union> set ops' = set tokens \<union> set r \<union> set (token # o')" .
    with s show ?thesis by auto
  qed
qed

lemma set_toRPN: "set (toRPN tokens) = set tokens"
proof -
  obtain r o' where l: "toRPN_loop tokens [] [] = (r, o')"
    by (cases "toRPN_loop tokens [] []")
  from set_toRPN_loop[OF l] show ?thesis by (simp add: toRPN_def l)
qed

subsection \<open>Evaluation\<close>

text \<open>
  The loop of \<open>GroupToken.evaluate\<close> over the tokens in postfix order. Its state is the
  array \<open>numbers\<close> (index 0 first) and, beside it, the property \<open>numbers[-1]\<close>: a unary
  token met while the array is empty reads and writes \<open>numbers[numbers.length - 1]\<close>
  with length 0, which is that property and not an element (it is \<open>undefined\<close> until
  written, and \<open>push\<close>, \<open>splice\<close> and \<open>numbers[0]\<close> do not see it).
  \<open>numbers.splice(numbers.length - 2, 2)\<close> removes and returns the last two elements,
  or all of them when there are fewer. The parameter \<open>ev\<close> is \<open>token.evaluate\<close>.
\<close>

fun GroupToken_reduce ::
  "(Token \<Rightarrow> 'n jsvalue list \<Rightarrow> error + 'n jsvalue) \<Rightarrow> Token list
   \<Rightarrow> 'n jsvalue list \<times> 'n jsvalue \<Rightarrow> error + ('n jsvalue list \<times> 'n jsvalue)" where
  "GroupToken_reduce ev [] st = Inr st"
| "GroupToken_reduce ev (token # rest) (numbers, minus1) =
     (case Token_precedence token of
        prec_symbol \<Rightarrow>
          (case ev token [] of
             Inl e \<Rightarrow> Inl e
           | Inr v \<Rightarrow> GroupToken_reduce ev rest (numbers @ [v], minus1))
      | prec_unary \<Rightarrow>
          (if numbers = [] then
             (case ev token [minus1] of
                Inl e \<Rightarrow> Inl e
              | Inr v \<Rightarrow> GroupToken_reduce ev rest (numbers, v))
           else
             (case ev token [last numbers] of
                Inl e \<Rightarrow> Inl e
              | Inr v \<Rightarrow> GroupToken_reduce ev rest (butlast numbers @ [v], minus1)))
      | _ \<Rightarrow>
          (case ev token (drop (length numbers - 2) numbers) of
             Inl e \<Rightarrow> Inl e
           | Inr v \<Rightarrow> GroupToken_reduce ev rest (take (length numbers - 2) numbers @ [v], minus1)))"

lemma GroupToken_reduce_cong [fundef_cong]:
  assumes "tokens = tokens'" "st = st'"
    and "\<And>t args. t \<in> set tokens' \<Longrightarrow> ev t args = ev' t args"
  shows "GroupToken_reduce ev tokens st = GroupToken_reduce ev' tokens' st'"
  using assms
proof (induction tokens' arbitrary: tokens st st')
  case Nil
  then show ?case by simp
next
  case (Cons t ts)
  obtain numbers minus1 where st': "st' = (numbers, minus1)" by (cases st')
  have ev: "\<And>args. ev t args = ev' t args" using Cons.prems(3) by simp
  have rec: "\<And>s. GroupToken_reduce ev ts s = GroupToken_reduce ev' ts s"
    using Cons.IH[OF refl refl] Cons.prems(3) by simp
  show ?case
    unfolding Cons.prems(1) Cons.prems(2) st'
    by (simp add: ev rec split: Precedence.splits sum.splits)
qed

text \<open>
  \<open>evaluate(env, ...args)\<close> of each class. The evaluation of an \<open>OpenToken\<close> or an
  \<open>EqToken\<close> throws; the result of a \<open>GroupToken\<close> is \<open>numbers[0]\<close>, which is
  \<open>undefined\<close> when the array ends empty.
\<close>

function evaluate ::
  "'n Runtime \<Rightarrow> 'n Environment \<Rightarrow> Token \<Rightarrow> 'n jsvalue list \<Rightarrow> error + 'n jsvalue" where
  "evaluate R env (NumberToken negative number) args =
     (let n = js_parseFloat R number in Inr (Number (if negative then js_neg R n else n)))"
| "evaluate R env (BinaryToken op) args =
     (let left = toNumber R (arg args 0); right = toNumber R (arg args 1) in
      Inr (Number (case op of
          op_add \<Rightarrow> js_add R left right
        | op_sub \<Rightarrow> js_sub R left right
        | op_mul \<Rightarrow> js_mul R left right
        | op_div \<Rightarrow> js_div R left right
        | op_pow \<Rightarrow> Math_pow R left right
        | op_ee \<Rightarrow> js_mul R left (Math_pow R (js_literal R 10) right))))"
| "evaluate R env (UnaryToken op) args =
     (let x = toNumber R (arg args 0) in
      Inr (Number (case op of
          op_reciprocal \<Rightarrow> js_div R (js_literal R 1) x
        | op_sqrt \<Rightarrow> Math_sqrt R x
        | op_neg \<Rightarrow> js_neg R x)))"
| "evaluate R env (GroupToken tokens) args =
     (case GroupToken_reduce (\<lambda>token as. evaluate R env token as) (toRPN tokens) ([], Undefined) of
        Inl e \<Rightarrow> Inl e
      | Inr (numbers, minus1) \<Rightarrow> Inr (arg numbers 0))"
| "evaluate R env (SymbolToken op) args =
     (case op of op_ans \<Rightarrow>
        (if length (history env) > 0 then Inr (Number (ans (last (history env))))
         else Inr (Number (js_literal R 0))))"
| "evaluate R env OpenToken args = Inl ShouldNeverEvaluateOpenToken"
| "evaluate R env EqToken args = Inl ShouldNeverEvaluateEqToken"
  by pat_completeness auto
termination
proof (relation "measure (\<lambda>(R, env, token, args). size token)")
  show "wf (measure (\<lambda>(R, env, token, args). size token))" by simp
next
  fix R :: "'n Runtime" and env :: "'n Environment" and tokens :: "Token list"
    and args :: "'n jsvalue list" and x :: Token and xa :: "'n jsvalue list"
  assume "x \<in> set (toRPN tokens)"
  then have "x \<in> set tokens" by (simp add: set_toRPN)
  then have "size x < size (GroupToken tokens)"
    by (induction tokens) auto
  then show "((R, env, x, xa), (R, env, GroupToken tokens, args))
      \<in> measure (\<lambda>(R, env, token, args). size token)" by simp
qed

subsection \<open>Rendering\<close>

text \<open>
  \<open>renderInto(result)\<close> pushes the token's markup fragments onto \<open>result\<close>
  (\<open>CHR 0x22\<close> is the double quote).
\<close>

definition spanOpen :: "string \<Rightarrow> string" where
  "spanOpen cls = ''<span class='' @ [CHR 0x22] @ cls @ [CHR 0x22] @ ''>''"

fun Token_renderInto :: "Token \<Rightarrow> string list \<Rightarrow> string list" where
  "Token_renderInto (NumberToken negative number) result =
     result @ [spanOpen ''number'', (if negative then ''-'' else []), number, ''</span>'']"
| "Token_renderInto (BinaryToken op) result =
     result @ [spanOpen ''operator'', binOpString op, ''</span>'']"
| "Token_renderInto (UnaryToken op) result =
     result @ [spanOpen ''operator'', unOpString op, ''</span>'']"
| "Token_renderInto (GroupToken tokens) result =
     fold Token_renderInto tokens (result @ [spanOpen ''parenthesis'' @ ''(</span>''])
     @ [spanOpen ''parenthesis'' @ '')</span>'']"
| "Token_renderInto (SymbolToken op) result =
     result @ [spanOpen ''symbol'', symOpString op, ''</span>'']"
| "Token_renderInto OpenToken result = result @ [spanOpen ''parenthesis'' @ ''(</span>'']"
| "Token_renderInto EqToken result = result @ [spanOpen ''eq'' @ ''=</span>'']"

definition Formula_renderInto :: "Token list \<Rightarrow> string list \<Rightarrow> string list" where
  "Formula_renderInto tokens result = fold Token_renderInto tokens result"

subsection \<open>Serialization\<close>

text \<open>
  The values that \<open>serialize\<close> builds: \<open>null\<close>, booleans, strings and arrays.
\<close>

datatype json = JNull | JBool bool | JString string | JArray "json list"

text \<open>\<open>serializeToken\<close>: the pair \<open>[token.serializeTag(), token.serialize()]\<close>.\<close>

fun serializeToken :: "Token \<Rightarrow> json" where
  "serializeToken (NumberToken negative number) =
     JArray [JString ''n'', JArray [JBool negative, JString number]]"
| "serializeToken (BinaryToken op) = JArray [JString ''b'', JString (binOpString op)]"
| "serializeToken (UnaryToken op) = JArray [JString ''u'', JString (unOpString op)]"
| "serializeToken (GroupToken tokens) = JArray [JString ''g'', JArray (map serializeToken tokens)]"
| "serializeToken (SymbolToken op) = JArray [JString ''s'', JString (symOpString op)]"
| "serializeToken OpenToken = JArray [JString ''o'', JNull]"
| "serializeToken EqToken = JArray [JString ''e'', JNull]"

text \<open>
  The \<open>deserialize\<close> methods store the payload in the fields without a check. The fields
  of the model are typed, so a string is read back as the enumeration member it stands
  for, and a payload that is not of the type the class declares for its fields (which
  \<open>serialize\<close> never produces, and with which the code builds a token whose fields
  hold values of another type, or raises a \<open>TypeError\<close>) is
  \<open>PayloadOutsideDeclaredType\<close>. The markers ignore their payload, whatever it is.
\<close>

definition binOpOfString :: "string \<Rightarrow> BinOp option" where
  "binOpOfString s =
     (if s = binOpString op_add then Some op_add
      else if s = binOpString op_sub then Some op_sub
      else if s = binOpString op_mul then Some op_mul
      else if s = binOpString op_div then Some op_div
      else if s = binOpString op_pow then Some op_pow
      else if s = binOpString op_ee then Some op_ee
      else None)"

definition unOpOfString :: "string \<Rightarrow> UnOp option" where
  "unOpOfString s =
     (if s = unOpString op_reciprocal then Some op_reciprocal
      else if s = unOpString op_sqrt then Some op_sqrt
      else if s = unOpString op_neg then Some op_neg
      else None)"

definition symOpOfString :: "string \<Rightarrow> SymOp option" where
  "symOpOfString s = (if s = symOpString op_ans then Some op_ans else None)"

text \<open>
  \<open>deserializeToken\<close> dispatches on the tag \<open>json[0]\<close>, throws on an unknown tag, and
  hands \<open>json[1]\<close> to the \<open>deserialize\<close> method of a fresh token of the class.
  \<open>deserializeTokens\<close> is \<open>value.map(deserializeToken)\<close> of \<open>GroupToken.deserialize\<close>,
  which the first throw aborts.
\<close>

fun deserializeToken :: "json \<Rightarrow> error + Token"
  and deserializeTokens :: "json list \<Rightarrow> error + Token list" where
  "deserializeToken (JArray (JString tag # payload)) =
     (if tag = ''n'' then
        (case payload of
           JArray (JBool negative # JString number # rest) # rest' \<Rightarrow>
             Inr (NumberToken negative number)
         | _ \<Rightarrow> Inl PayloadOutsideDeclaredType)
      else if tag = ''b'' then
        (case payload of
           JString s # rest \<Rightarrow> (case binOpOfString s of
                          Some op \<Rightarrow> Inr (BinaryToken op)
                        | None \<Rightarrow> Inl PayloadOutsideDeclaredType)
         | _ \<Rightarrow> Inl PayloadOutsideDeclaredType)
      else if tag = ''u'' then
        (case payload of
           JString s # rest \<Rightarrow> (case unOpOfString s of
                          Some op \<Rightarrow> Inr (UnaryToken op)
                        | None \<Rightarrow> Inl PayloadOutsideDeclaredType)
         | _ \<Rightarrow> Inl PayloadOutsideDeclaredType)
      else if tag = ''g'' then
        (case payload of
           JArray vs # rest \<Rightarrow> (case deserializeTokens vs of
                           Inl e \<Rightarrow> Inl e
                         | Inr tokens \<Rightarrow> Inr (GroupToken tokens))
         | _ \<Rightarrow> Inl PayloadOutsideDeclaredType)
      else if tag = ''s'' then
        (case payload of
           JString s # rest \<Rightarrow> (case symOpOfString s of
                          Some op \<Rightarrow> Inr (SymbolToken op)
                        | None \<Rightarrow> Inl PayloadOutsideDeclaredType)
         | _ \<Rightarrow> Inl PayloadOutsideDeclaredType)
      else if tag = ''o'' then Inr OpenToken
      else if tag = ''e'' then Inr EqToken
      else Inl (CannotSerializeTokenFrom tag))"
| "deserializeToken _ = Inl PayloadOutsideDeclaredType"
| "deserializeTokens [] = Inr []"
| "deserializeTokens (v # vs) =
     (case deserializeToken v of
        Inl e \<Rightarrow> Inl e
      | Inr token \<Rightarrow> (case deserializeTokens vs of
                        Inl e \<Rightarrow> Inl e
                      | Inr tokens \<Rightarrow> Inr (token # tokens)))"

subsection \<open>The formula\<close>

text \<open>
  A \<open>Formula\<close> has the one field \<open>tokens\<close>; its methods are functions from the token
  list before the call to the token list after it (and the returned value, if any).
  The tokens are modelled as values: no two places of the program hold the same mutable
  token (a \<open>GroupToken\<close> takes its tokens out of the formula's array, and history
  entries are clones).
\<close>

text \<open>
  \<open>handleAppendResult\<close>. On an empty array, \<open>this.tokens[this.tokens.length - 1] =
  newToken\<close> writes the property \<open>-1\<close>, which is no element, so the sequence stays
  empty, and \<open>splice(-1, 0, newToken)\<close> inserts at index 0.
\<close>

definition Formula_handleAppendResult :: "AppendResult \<Rightarrow> Token \<Rightarrow> Token list \<Rightarrow> Token list" where
  "Formula_handleAppendResult appendResult newToken tokens =
     (case appendResult of
        createAfter \<Rightarrow> tokens @ [newToken]
      | insertAnsAndCreate \<Rightarrow> tokens @ [SymbolToken op_ans, newToken]
      | deleteAndCreate \<Rightarrow> (if tokens = [] then [] else butlast tokens @ [newToken])
      | createBefore \<Rightarrow>
          take (length tokens - 1) tokens @ [newToken] @ drop (length tokens - 1) tokens
      | backspace \<Rightarrow> butlast tokens
      | _ \<Rightarrow> tokens)"

text \<open>
  \<open>appendToLastToken\<close>: \<open>action\<close> may mutate the last token in place, so the model
  puts the token it returns back at the end of the list.
\<close>

definition Formula_appendToLastToken ::
  "AppendResult \<Rightarrow> (Token \<Rightarrow> AppendResult \<times> Token) \<Rightarrow> Token list \<Rightarrow> AppendResult \<times> Token list" where
  "Formula_appendToLastToken defaultResult action tokens =
     (if length tokens = 0 then (defaultResult, tokens)
      else
        (case action (last tokens) of
           (result, token) \<Rightarrow>
             if token = EqToken \<and> result \<noteq> failed then (result, [])
             else (result, butlast tokens @ [token])))"

definition Formula_appendDigit :: "Digit \<Rightarrow> Token list \<Rightarrow> Token list" where
  "Formula_appendDigit digit tokens =
     (case Formula_appendToLastToken createAfter (Token_appendDigit digit) tokens of
        (appendResult, tokens') \<Rightarrow>
          Formula_handleAppendResult appendResult (NumberToken_new digit) tokens')"

definition Formula_appendBinary :: "BinOp \<Rightarrow> Token list \<Rightarrow> Token list" where
  "Formula_appendBinary op tokens =
     (case Formula_appendToLastToken insertAnsAndCreate (Token_appendBinary op) tokens of
        (appendResult, tokens') \<Rightarrow>
          Formula_handleAppendResult appendResult (BinaryToken op) tokens')"

definition Formula_appendUnary :: "UnOp \<Rightarrow> Token list \<Rightarrow> Token list" where
  "Formula_appendUnary op tokens =
     (case Formula_appendToLastToken insertAnsAndCreate (Token_appendUnary op) tokens of
        (appendResult, tokens') \<Rightarrow>
          Formula_handleAppendResult appendResult (UnaryToken op) tokens')"

definition Formula_appendSymbol :: "SymOp \<Rightarrow> Token list \<Rightarrow> Token list" where
  "Formula_appendSymbol op tokens =
     (case Formula_appendToLastToken createAfter Token_appendSymbol tokens of
        (appendResult, tokens') \<Rightarrow>
          Formula_handleAppendResult appendResult (SymbolToken op) tokens')"

definition Formula_appendOpen :: "Token list \<Rightarrow> Token list" where
  "Formula_appendOpen tokens =
     (case Formula_appendToLastToken createAfter Token_appendOpen tokens of
        (appendResult, tokens') \<Rightarrow>
          Formula_handleAppendResult appendResult OpenToken tokens')"

text \<open>
  The loop of \<open>appendClose\<close>, \<open>for (let i = this.tokens.length - 1; i >= 0; i--)\<close>:
  \<open>findOpen tokens n\<close> runs it from \<open>i = n - 1\<close> down and returns the index of the
  first \<open>OpenToken\<close> it meets.
\<close>

fun findOpen :: "Token list \<Rightarrow> nat \<Rightarrow> nat option" where
  "findOpen tokens 0 = None"
| "findOpen tokens (Suc i) = (if tokens ! i = OpenToken then Some i else findOpen tokens i)"

definition Formula_appendClose :: "Token list \<Rightarrow> error + (bool \<times> Token list)" where
  "Formula_appendClose tokens =
     (case Formula_appendToLastToken failed Token_appendClose tokens of
        (appendResult, tokens') \<Rightarrow>
          (case appendResult of
             failed \<Rightarrow> Inr (False, tokens')
           | createAfter \<Rightarrow>
               (case findOpen tokens' (length tokens') of
                  Some i \<Rightarrow> Inr (True, take i tokens' @ [GroupToken (drop (i + 1) tokens')])
                | None \<Rightarrow> Inr (False, tokens'))
           | _ \<Rightarrow> Inl UnknownActionForAppendingClose))"

text \<open>
  \<open>backspace\<close>: \<open>pop\<close> on an empty array returns \<open>undefined\<close>, which is an instance
  of neither class.
\<close>

definition Formula_backspace :: "Token list \<Rightarrow> Token list" where
  "Formula_backspace tokens =
     (if tokens = [] then []
      else
        (case last tokens of
           NumberToken negative number \<Rightarrow>
             (case NumberToken_backspace negative number of
                (remove, token) \<Rightarrow>
                  if \<not> remove then butlast tokens @ [token] else butlast tokens)
         | GroupToken groupTokens \<Rightarrow> butlast tokens @ [OpenToken] @ groupTokens
         | _ \<Rightarrow> butlast tokens))"

definition Formula_isComplete :: "Token list \<Rightarrow> bool" where
  "Formula_isComplete tokens \<longleftrightarrow> length tokens > 0 \<and> last tokens = EqToken"

text \<open>
  \<open>partial\<close>. \<open>partial_inner\<close> is the inner \<open>while (start > 0)\<close> loop of the
  \<open>default\<close> branch: it returns whether it left by \<open>break outside\<close>, and \<open>start\<close>.
  \<open>partial_loop\<close> is the outer \<open>while (start >= 0)\<close> loop on \<open>start\<close> and \<open>end\<close>.
  In the \<open>default\<close> branch at \<open>start = 0\<close> nothing changes \<open>start\<close>, so the loop
  need not end: it is a partial function, with \<open>None\<close> for a run that does not return.
  \<open>partial\<close> enters it at \<open>start = length - 1\<close>, and \<open>start\<close> only decreases, so
  \<open>tokens[start]\<close> is read inside the array.
\<close>

fun partial_inner :: "Token list \<Rightarrow> Precedence \<Rightarrow> nat \<Rightarrow> bool \<times> nat" where
  "partial_inner tokens prec 0 = (False, 0)"
| "partial_inner tokens prec (Suc s) =
     (if precedenceValue (Token_precedence (tokens ! s)) < precedenceValue prec then (True, Suc s)
      else partial_inner tokens prec s)"

partial_function (option) partial_loop :: "Token list \<Rightarrow> int \<Rightarrow> int \<Rightarrow> (int \<times> int) option" where
  "partial_loop tokens start end' =
     (if start \<ge> 0 then
        (let token = tokens ! nat start; prec = Token_precedence token in
         case prec of
           prec_symbol \<Rightarrow> Some (start, end')
         | prec_eq \<Rightarrow> Some (0, end' - 1)
         | prec_unary \<Rightarrow> partial_loop tokens (start - 1) end'
         | prec_open \<Rightarrow> partial_loop tokens (start - 1) (end' - 1)
         | _ \<Rightarrow>
             (case partial_inner tokens prec (nat start) of
                (broke, start') \<Rightarrow>
                  if broke then Some (int start', end' - 1)
                  else partial_loop tokens (int start') (end' - 1)))
      else Some (start, end'))"

definition Formula_partial :: "Token list \<Rightarrow> Token list option" where
  "Formula_partial tokens =
     (case partial_loop tokens (int (length tokens) - 1) (int (length tokens)) of
        None \<Rightarrow> None
      | Some (start, end') \<Rightarrow>
          (let start' = (if start < 0 then 0 else start) in
           if start' \<ge> end' then Some [NumberToken_new D0]
           else Some (take (nat end' - nat start') (drop (nat start') tokens))))"

declare partial_loop.simps [code]

text \<open>
  \<open>appendClose\<close> of a token changes no token and returns \<open>failed\<close> or
  \<open>createAfter\<close>; each successful \<open>Formula.appendClose\<close> consumes an \<open>OpenToken\<close>
  of the formula, which bounds the loop of \<open>appendEq\<close>.
\<close>

lemma Token_appendClose_snd: "snd (Token_appendClose t) = t"
  by (cases t) simp_all

lemma Token_appendClose_fst:
  "fst (Token_appendClose t) = failed \<or> fst (Token_appendClose t) = createAfter"
  by (cases t) simp_all

lemma appendToLastToken_close:
  "Formula_appendToLastToken failed Token_appendClose tokens =
     (if tokens = [] then failed else fst (Token_appendClose (last tokens)), tokens)"
proof (cases "tokens = []")
  case True
  then show ?thesis by (simp add: Formula_appendToLastToken_def)
next
  case False
  obtain r t where a: "Token_appendClose (last tokens) = (r, t)"
    by (cases "Token_appendClose (last tokens)")
  from a Token_appendClose_snd[of "last tokens"] have t: "t = last tokens" by simp
  have "t = EqToken \<Longrightarrow> r = failed" using a t by (cases "last tokens") auto
  with False a t show ?thesis
    by (auto simp: Formula_appendToLastToken_def)
qed

lemma findOpen_Some:
  "findOpen tokens n = Some i \<Longrightarrow>
     i < n \<and> tokens ! i = OpenToken \<and> (\<forall>j. i < j \<and> j < n \<longrightarrow> tokens ! j \<noteq> OpenToken)"
proof (induction n)
  case 0
  then show ?case by simp
next
  case (Suc n)
  show ?case
  proof (cases "tokens ! n = OpenToken")
    case True
    with Suc.prems show ?thesis by auto
  next
    case False
    with Suc.prems have "findOpen tokens n = Some i" by simp
    from Suc.IH[OF this] False show ?thesis
      by (auto simp: less_Suc_eq)
  qed
qed

lemma findOpen_None:
  "findOpen tokens n = None \<longleftrightarrow> (\<forall>j<n. tokens ! j \<noteq> OpenToken)"
  by (induction n) (auto simp: less_Suc_eq)

lemma appendClose_opens:
  assumes "Formula_appendClose tokens = Inr (True, tokens')"
  shows "length (filter (\<lambda>t. t = OpenToken) tokens') < length (filter (\<lambda>t. t = OpenToken) tokens)"
proof -
  from assms obtain i where f: "findOpen tokens (length tokens) = Some i"
    and t': "tokens' = take i tokens @ [GroupToken (drop (i + 1) tokens)]"
    by (auto simp: Formula_appendClose_def appendToLastToken_close
             split: AppendResult.splits option.splits if_splits)
  from findOpen_Some[OF f] have i: "i < length tokens" and o: "tokens ! i = OpenToken" by auto
  have d: "drop i tokens = OpenToken # drop (Suc i) tokens"
    using i o by (simp flip: Cons_nth_drop_Suc)
  have "filter (\<lambda>t. t = OpenToken) tokens =
      filter (\<lambda>t. t = OpenToken) (take i tokens) @ filter (\<lambda>t. t = OpenToken) (drop i tokens)"
    by (simp flip: filter_append)
  then have "length (filter (\<lambda>t. t = OpenToken) (take i tokens)) < length (filter (\<lambda>t. t = OpenToken) tokens)"
    by (simp add: d)
  then show ?thesis by (simp add: t')
qed

text \<open>
  \<open>appendEq\<close>; \<open>Formula_closeAll\<close> is its loop \<open>while (this.appendClose()) { }\<close>.
\<close>

function Formula_closeAll :: "Token list \<Rightarrow> error + Token list" where
  "Formula_closeAll tokens =
     (case Formula_appendClose tokens of
        Inl e \<Rightarrow> Inl e
      | Inr (didClose, tokens') \<Rightarrow> if didClose then Formula_closeAll tokens' else Inr tokens')"
  by pat_completeness auto
termination
  by (relation "measure (\<lambda>tokens. length (filter (\<lambda>t. t = OpenToken) tokens))")
     (auto dest: appendClose_opens)

declare Formula_closeAll.simps [simp del]

definition Formula_appendEq :: "Token list \<Rightarrow> error + Token list" where
  "Formula_appendEq tokens =
     (case Formula_appendToLastToken failed Token_appendClose tokens of
        (appendResult, tokens') \<Rightarrow>
          if appendResult \<noteq> createAfter then Inr tokens'
          else (case Formula_closeAll tokens' of
                  Inl e \<Rightarrow> Inl e
                | Inr tokens'' \<Rightarrow> Inr (tokens'' @ [EqToken])))"

subsection \<open>An exact runtime\<close>

text \<open>
  An instance of the runtime, for showing that what the theorems below assume of the
  runtime can hold: exact rational arithmetic, with \<open>None\<close> for every value it does
  not represent (\<open>NaN\<close>, the infinities, irrational roots). \<open>exact_parseFloat\<close> reads
  the strings the editor builds: decimal digits with at most one decimal point after the
  first digit. On integers of small magnitude the doubles compute the same values.
\<close>

definition digitOfChar :: "char \<Rightarrow> nat option" where
  "digitOfChar c = map_of (zip ''0123456789'' [0, 1, 2, 3, 4, 5, 6, 7, 8, 9]) c"

fun digitsValue :: "nat \<Rightarrow> string \<Rightarrow> nat option" where
  "digitsValue acc [] = Some acc"
| "digitsValue acc (c # cs) =
     (case digitOfChar c of None \<Rightarrow> None | Some d \<Rightarrow> digitsValue (10 * acc + d) cs)"

definition exact_parseFloat :: "string \<Rightarrow> rat option" where
  "exact_parseFloat s =
     (let ip = takeWhile (\<lambda>c. c \<noteq> CHR ''.'') s; fp = drop 1 (dropWhile (\<lambda>c. c \<noteq> CHR ''.'') s) in
      if ip = [] then None
      else case (digitsValue 0 ip, digitsValue 0 fp) of
             (Some a, Some b) \<Rightarrow> Some (of_nat a + of_nat b / 10 ^ length fp)
           | _ \<Rightarrow> None)"

definition exact2 :: "(rat \<Rightarrow> rat \<Rightarrow> rat) \<Rightarrow> rat option \<Rightarrow> rat option \<Rightarrow> rat option" where
  "exact2 f a b = (case (a, b) of (Some x, Some y) \<Rightarrow> Some (f x y) | _ \<Rightarrow> None)"

definition exactRuntime :: "rat option Runtime" where
  "exactRuntime = \<lparr>
     js_parseFloat = exact_parseFloat,
     js_literal = (\<lambda>i. Some (of_int i)),
     js_NaN = None,
     js_add = exact2 (+),
     js_sub = exact2 (-),
     js_mul = exact2 (*),
     js_div = (\<lambda>a b. if b = Some 0 then None else exact2 (/) a b),
     js_neg = map_option uminus,
     Math_pow = (\<lambda>a b. case (a, b) of
                   (Some x, Some y) \<Rightarrow>
                     if of_int \<lfloor>y\<rfloor> \<noteq> y then None
                     else if 0 \<le> y then Some (x ^ nat \<lfloor>y\<rfloor>)
                     else if x = 0 then None
                     else Some (1 / x ^ nat (- \<lfloor>y\<rfloor>))
                 | _ \<Rightarrow> None),
     Math_sqrt = (\<lambda>a. case a of
                   Some x \<Rightarrow> if x = 0 then Some 0 else if x = 1 then Some 1 else None
                 | None \<Rightarrow> None) \<rparr>"

definition emptyEnvironment :: "rat option Environment" where
  "emptyEnvironment = \<lparr> historyIndices = [], history = [], partialAns = Some 0 \<rparr>"

subsection \<open>The formulas the editor builds\<close>

text \<open>
  \<open>containsEq\<close>: the token is the \<open>EqToken\<close> or a group that holds one at any depth.
  \<open>plain\<close>: the token is not the \<open>EqToken\<close>, a number has at least one character,
  and the tokens of a group are plain.
  \<open>reachable\<close>: the token sequences a \<open>Formula\<close> can hold, from the empty one it is
  created with, by the editing operations (those that can throw, when they return).
\<close>

fun containsEq :: "Token \<Rightarrow> bool" where
  "containsEq EqToken = True"
| "containsEq (GroupToken tokens) = (\<exists>t \<in> set tokens. containsEq t)"
| "containsEq _ = False"

fun plain :: "Token \<Rightarrow> bool" where
  "plain (NumberToken negative number) = (number \<noteq> [])"
| "plain (GroupToken tokens) = (\<forall>t \<in> set tokens. plain t)"
| "plain EqToken = False"
| "plain _ = True"

inductive reachable :: "Token list \<Rightarrow> bool" where
  created: "reachable []"
| appendDigit: "reachable tokens \<Longrightarrow> reachable (Formula_appendDigit digit tokens)"
| appendBinary: "reachable tokens \<Longrightarrow> reachable (Formula_appendBinary bop tokens)"
| appendUnary: "reachable tokens \<Longrightarrow> reachable (Formula_appendUnary uop tokens)"
| appendSymbol: "reachable tokens \<Longrightarrow> reachable (Formula_appendSymbol sop tokens)"
| appendOpen: "reachable tokens \<Longrightarrow> reachable (Formula_appendOpen tokens)"
| appendClose: "reachable tokens \<Longrightarrow> Formula_appendClose tokens = Inr (didClose, tokens')
      \<Longrightarrow> reachable tokens'"
| backspace: "reachable tokens \<Longrightarrow> reachable (Formula_backspace tokens)"
| appendEq: "reachable tokens \<Longrightarrow> Formula_appendEq tokens = Inr tokens' \<Longrightarrow> reachable tokens'"

text \<open>
  The invariant: all tokens are plain, or the last one is the \<open>EqToken\<close>, after at
  least one token, and the others are plain.
\<close>

definition allPlain :: "Token list \<Rightarrow> bool" where
  "allPlain tokens \<longleftrightarrow> (\<forall>t \<in> set tokens. plain t)"

definition eqOnlyLast :: "Token list \<Rightarrow> bool" where
  "eqOnlyLast tokens \<longleftrightarrow>
     allPlain tokens \<or> (\<exists>xs. tokens = xs @ [EqToken] \<and> allPlain xs \<and> xs \<noteq> [])"

text \<open>
  A second invariant: the first token is never a binary operator (an operator typed into
  an empty formula comes after the \<open>Ans\<close> symbol).
\<close>

fun leadingBinary :: "Token list \<Rightarrow> bool" where
  "leadingBinary (BinaryToken op # tokens) = True"
| "leadingBinary _ = False"

subsection \<open>Operators from left to right\<close>





section \<open>Properties\<close>

subsection \<open>Appending to a number\<close>

text \<open>
  C6, as the code has it. Appending a digit to a \<open>NumberToken\<close> changes the token in
  place (directive \<open>replaced\<close>; a lone \<open>0\<close> is dropped before a digit other than the
  decimal point), unless the digit is a second decimal point (directive \<open>failed\<close>, token
  unchanged). A unary negate toggles the sign flag in place (\<open>replaced\<close>), the other
  unary operators give \<open>createAfter\<close>. \<open>appendBinary\<close> and \<open>appendClose\<close> give
  \<open>createAfter\<close>, \<open>appendSymbol\<close> gives \<open>deleteAndCreate\<close> and \<open>appendOpen\<close> gives
  \<open>createBefore\<close>; these four leave the number unchanged.
\<close>

theorem C6_number_append:
  "Token_appendDigit digit (NumberToken negative number) =
     (if digit = Dot \<and> CHR ''.'' \<in> set number then (failed, NumberToken negative number)
      else (replaced, NumberToken negative
              ((if digit \<noteq> Dot \<and> number = ''0'' then [] else number) @ digitString digit)))
   \<and> Token_appendBinary op (NumberToken negative number) = (createAfter, NumberToken negative number)
   \<and> Token_appendUnary uop (NumberToken negative number) =
       (if uop = op_neg then (replaced, NumberToken (\<not> negative) number)
        else (createAfter, NumberToken negative number))
   \<and> Token_appendSymbol (NumberToken negative number) = (deleteAndCreate, NumberToken negative number)
   \<and> Token_appendOpen (NumberToken negative number) = (createBefore, NumberToken negative number)
   \<and> Token_appendClose (NumberToken negative number) = (createAfter, NumberToken negative number)"
  by simp

theorem C6_number_append_witness:
  "Token_appendDigit Dot (NumberToken False ''1.5'') = (failed, NumberToken False ''1.5'')
   \<and> Token_appendDigit D7 (NumberToken False ''0'') = (replaced, NumberToken False ''7'')
   \<and> Token_appendDigit Dot (NumberToken True ''0'') = (replaced, NumberToken True ''0.'')
   \<and> Token_appendUnary op_neg (NumberToken False ''12'') = (replaced, NumberToken True ''12'')
   \<and> Token_appendUnary op_sqrt (NumberToken False ''12'') = (createAfter, NumberToken False ''12'')
   \<and> Token_appendSymbol (NumberToken False ''12'') = (deleteAndCreate, NumberToken False ''12'')
   \<and> Token_appendOpen (NumberToken False ''12'') = (createBefore, NumberToken False ''12'')"
  using C6_number_append [of Dot False "''1.5''" op_add op_neg]
    C6_number_append [of D7 False "''0''" op_add op_neg]
    C6_number_append [of Dot True "''0''" op_add op_neg]
    C6_number_append [of D1 False "''12''" op_add op_neg]
    C6_number_append [of D1 False "''12''" op_add op_sqrt]
  by simp

text \<open>
  C6 as written says that \<open>appendSymbol\<close> and \<open>appendOpen\<close> on a number give
  \<open>createAfter\<close>; on the number \<open>1\<close> neither does.
\<close>

theorem C6_counterexample:
  "\<not> (fst (Token_appendSymbol (NumberToken False ''1'')) = createAfter
      \<or> fst (Token_appendOpen (NumberToken False ''1'')) = createAfter)"
  by simp

subsection \<open>Editing a completed formula\<close>

lemma appendToLastToken_Eq:
  "action EqToken = (r, EqToken) \<Longrightarrow> r \<noteq> failed \<Longrightarrow>
   Formula_appendToLastToken d action (xs @ [EqToken]) = (r, [])"
  by (simp add: Formula_appendToLastToken_def)

lemma appendToLastToken_Nil: "Formula_appendToLastToken d action [] = (d, [])"
  by (simp add: Formula_appendToLastToken_def)

text \<open>
  C3. On a token sequence that ends with the \<open>EqToken\<close>, each of \<open>appendDigit\<close>,
  \<open>appendBinary\<close>, \<open>appendUnary\<close>, \<open>appendSymbol\<close> and \<open>appendOpen\<close> gets a
  directive other than \<open>failed\<close> from the \<open>EqToken\<close>, \<open>appendToLastToken\<close> empties the
  sequence before the directive is handled, and the result is the result of the same
  operation on the empty formula. \<open>appendClose\<close> fails and \<open>appendEq\<close> returns early,
  and both leave the sequence as it is.
\<close>

theorem C3_edit_after_equals:
  "Formula_appendToLastToken createAfter (Token_appendDigit digit) (xs @ [EqToken]) = (createAfter, [])
   \<and> Formula_appendDigit digit (xs @ [EqToken]) = Formula_appendDigit digit []
   \<and> Formula_appendDigit digit (xs @ [EqToken]) = [NumberToken_new digit]
   \<and> Formula_appendToLastToken insertAnsAndCreate (Token_appendBinary bop) (xs @ [EqToken]) = (insertAnsAndCreate, [])
   \<and> Formula_appendBinary bop (xs @ [EqToken]) = Formula_appendBinary bop []
   \<and> Formula_appendBinary bop (xs @ [EqToken]) = [SymbolToken op_ans, BinaryToken bop]
   \<and> Formula_appendToLastToken insertAnsAndCreate (Token_appendUnary uop) (xs @ [EqToken]) = (insertAnsAndCreate, [])
   \<and> Formula_appendUnary uop (xs @ [EqToken]) = Formula_appendUnary uop []
   \<and> Formula_appendUnary uop (xs @ [EqToken]) = [SymbolToken op_ans, UnaryToken uop]
   \<and> Formula_appendToLastToken createAfter Token_appendSymbol (xs @ [EqToken]) = (createAfter, [])
   \<and> Formula_appendSymbol sop (xs @ [EqToken]) = Formula_appendSymbol sop []
   \<and> Formula_appendSymbol sop (xs @ [EqToken]) = [SymbolToken sop]
   \<and> Formula_appendToLastToken createAfter Token_appendOpen (xs @ [EqToken]) = (createAfter, [])
   \<and> Formula_appendOpen (xs @ [EqToken]) = Formula_appendOpen []
   \<and> Formula_appendOpen (xs @ [EqToken]) = [OpenToken]
   \<and> Formula_appendClose (xs @ [EqToken]) = Inr (False, xs @ [EqToken])
   \<and> Formula_appendEq (xs @ [EqToken]) = Inr (xs @ [EqToken])"
  by (simp add: appendToLastToken_Eq appendToLastToken_Nil appendToLastToken_close
      Formula_appendDigit_def Formula_appendBinary_def
      Formula_appendUnary_def Formula_appendSymbol_def Formula_appendOpen_def
      Formula_appendClose_def Formula_appendEq_def Formula_handleAppendResult_def)

subsection \<open>Closing a parenthesis\<close>

lemma appendClose_char:
  "Formula_appendClose tokens =
     (if tokens = [] \<or> fst (Token_appendClose (last tokens)) = failed then Inr (False, tokens)
      else case findOpen tokens (length tokens) of
             Some i \<Rightarrow> Inr (True, take i tokens @ [GroupToken (drop (i + 1) tokens)])
           | None \<Rightarrow> Inr (False, tokens))"
  using Token_appendClose_fst[of "last tokens"]
  by (auto simp: Formula_appendClose_def appendToLastToken_close)

lemma findOpen_None_set: "findOpen tokens (length tokens) = None \<longleftrightarrow> OpenToken \<notin> set tokens"
  by (auto simp: findOpen_None in_set_conv_nth)

lemma findOpen_split:
  assumes "findOpen tokens (length tokens) = Some i"
  shows "tokens = take i tokens @ OpenToken # drop (Suc i) tokens
         \<and> OpenToken \<notin> set (drop (Suc i) tokens)"
proof -
  from findOpen_Some[OF assms] have i: "i < length tokens" and o: "tokens ! i = OpenToken"
    and l: "\<forall>j. i < j \<and> j < length tokens \<longrightarrow> tokens ! j \<noteq> OpenToken" by auto
  have "tokens = take i tokens @ tokens ! i # drop (Suc i) tokens"
    using i by (rule id_take_nth_drop)
  moreover have "OpenToken \<notin> set (drop (Suc i) tokens)"
  proof
    assume "OpenToken \<in> set (drop (Suc i) tokens)"
    then obtain k where k: "k < length (drop (Suc i) tokens)" and e: "drop (Suc i) tokens ! k = OpenToken"
      by (auto simp: in_set_conv_nth)
    from k have "Suc i + k < length tokens" by simp
    moreover from e k have "tokens ! (Suc i + k) = OpenToken" by simp
    ultimately show False using l by auto
  qed
  ultimately show ?thesis using o by simp
qed

lemma appendClose_success:
  assumes "Formula_appendClose tokens = Inr (True, tokens')"
  shows "\<exists>pre post. tokens = pre @ OpenToken # post \<and> OpenToken \<notin> set post
           \<and> tokens' = pre @ [GroupToken post]
           \<and> post \<noteq> [] \<and> fst (Token_appendClose (last post)) = createAfter"
proof -
  from assms have ne: "tokens \<noteq> []" and nf: "fst (Token_appendClose (last tokens)) \<noteq> failed"
    by (auto simp: appendClose_char split: if_splits)
  from assms ne nf obtain i where f: "findOpen tokens (length tokens) = Some i"
    and t': "tokens' = take i tokens @ [GroupToken (drop (i + 1) tokens)]"
    by (auto simp: appendClose_char split: option.splits)
  define pre where "pre = take i tokens"
  define post where "post = drop (Suc i) tokens"
  from findOpen_split[OF f] have s: "tokens = pre @ OpenToken # post"
    and n: "OpenToken \<notin> set post" by (auto simp: pre_def post_def)
  have ca: "fst (Token_appendClose (last tokens)) = createAfter"
    using nf Token_appendClose_fst[of "last tokens"] by auto
  have p: "post \<noteq> []"
  proof
    assume "post = []"
    with s have "last tokens = OpenToken" by simp
    with nf show False by simp
  qed
  with s have "last tokens = last post" by simp
  with ca have "fst (Token_appendClose (last post)) = createAfter" by simp
  with s n t' p show ?thesis by (auto simp: pre_def post_def)
qed

text \<open>
  C7. \<open>appendClose\<close> never throws. It returns \<open>false\<close> with the token sequence
  unchanged when the close directive of the last token is \<open>failed\<close> (the default of
  the empty formula included) and when the directive is \<open>createAfter\<close> and the
  sequence holds no \<open>OpenToken\<close>. Otherwise it returns \<open>true\<close>, and the sequence from
  the last \<open>OpenToken\<close> to the end is replaced by one \<open>GroupToken\<close> holding the tokens
  after that \<open>OpenToken\<close>. Whenever it returns \<open>false\<close> the sequence is unchanged.
\<close>

theorem C7_appendClose:
  "(tokens = [] \<or> fst (Token_appendClose (last tokens)) = failed
      \<longrightarrow> Formula_appendClose tokens = Inr (False, tokens))
   \<and> (tokens \<noteq> [] \<and> fst (Token_appendClose (last tokens)) = createAfter \<and> OpenToken \<notin> set tokens
      \<longrightarrow> Formula_appendClose tokens = Inr (False, tokens))
   \<and> (tokens \<noteq> [] \<and> fst (Token_appendClose (last tokens)) = createAfter \<and> OpenToken \<in> set tokens
      \<longrightarrow> (\<exists>pre post. tokens = pre @ OpenToken # post \<and> OpenToken \<notin> set post
             \<and> Formula_appendClose tokens = Inr (True, pre @ [GroupToken post])))
   \<and> (\<forall>tokens'. Formula_appendClose tokens = Inr (False, tokens') \<longrightarrow> tokens' = tokens)
   \<and> (\<exists>didClose tokens'. Formula_appendClose tokens = Inr (didClose, tokens'))"
proof (intro conjI impI allI)
  assume "tokens = [] \<or> fst (Token_appendClose (last tokens)) = failed"
  then show "Formula_appendClose tokens = Inr (False, tokens)" by (simp add: appendClose_char)
next
  assume "tokens \<noteq> [] \<and> fst (Token_appendClose (last tokens)) = createAfter \<and> OpenToken \<notin> set tokens"
  then show "Formula_appendClose tokens = Inr (False, tokens)"
    using findOpen_None_set[of tokens] by (simp add: appendClose_char)
next
  assume a: "tokens \<noteq> [] \<and> fst (Token_appendClose (last tokens)) = createAfter \<and> OpenToken \<in> set tokens"
  then obtain i where f: "findOpen tokens (length tokens) = Some i"
    using findOpen_None_set[of tokens] by (cases "findOpen tokens (length tokens)") auto
  from a f have "Formula_appendClose tokens = Inr (True, take i tokens @ [GroupToken (drop (Suc i) tokens)])"
    by (simp add: appendClose_char)
  with findOpen_split[OF f]
  show "\<exists>pre post. tokens = pre @ OpenToken # post \<and> OpenToken \<notin> set post
             \<and> Formula_appendClose tokens = Inr (True, pre @ [GroupToken post])" by blast
next
  fix tokens' assume "Formula_appendClose tokens = Inr (False, tokens')"
  then show "tokens' = tokens"
    by (auto simp: appendClose_char split: if_splits option.splits)
next
  show "\<exists>didClose tokens'. Formula_appendClose tokens = Inr (didClose, tokens')"
    by (auto simp: appendClose_char split: option.splits)
qed

theorem C7_appendClose_witness:
  "Formula_appendClose [] = Inr (False, [])
   \<and> Formula_appendClose [NumberToken False ''2'', BinaryToken op_add]
       = Inr (False, [NumberToken False ''2'', BinaryToken op_add])
   \<and> Formula_appendClose [OpenToken] = Inr (False, [OpenToken])
   \<and> Formula_appendClose [NumberToken False ''2''] = Inr (False, [NumberToken False ''2''])
   \<and> (\<exists>pre post. [OpenToken, OpenToken, NumberToken False ''2''] = pre @ OpenToken # post
         \<and> OpenToken \<notin> set post
         \<and> Formula_appendClose [OpenToken, OpenToken, NumberToken False ''2'']
             = Inr (True, pre @ [GroupToken post]))"
  using C7_appendClose [of "[]"]
    C7_appendClose [of "[NumberToken False ''2'', BinaryToken op_add]"]
    C7_appendClose [of "[OpenToken]"]
    C7_appendClose [of "[NumberToken False ''2'']"]
    C7_appendClose [of "[OpenToken, OpenToken, NumberToken False ''2'']"]
  by simp

subsection \<open>Backspace on a group\<close>

text \<open>
  C8. After a successful \<open>appendClose\<close> the formula ends with the new \<open>GroupToken\<close>;
  \<open>backspace\<close> replaces it by an \<open>OpenToken\<close> followed by the tokens of the group,
  which is the sequence before \<open>appendClose\<close>, and \<open>appendClose\<close> on that sequence
  succeeds again with the same result.
\<close>

theorem C8_backspace_group:
  assumes "Formula_appendClose tokens = Inr (True, tokens')"
  shows "\<exists>pre groupTokens. tokens' = pre @ [GroupToken groupTokens]
           \<and> Formula_backspace tokens' = pre @ OpenToken # groupTokens
           \<and> Formula_backspace tokens' = tokens
           \<and> Formula_appendClose (Formula_backspace tokens') = Inr (True, tokens')"
proof -
  from appendClose_success[OF assms] obtain pre post where
    t: "tokens = pre @ OpenToken # post" and t': "tokens' = pre @ [GroupToken post]" by blast
  have b: "Formula_backspace tokens' = pre @ OpenToken # post"
    by (simp add: t' Formula_backspace_def)
  with t t' assms show ?thesis by auto
qed


theorem C8_backspace_group_witness:
  "Formula_appendClose [NumberToken False ''1'', OpenToken, NumberToken False ''2'']
     = Inr (True, [NumberToken False ''1'', GroupToken [NumberToken False ''2'']])
   \<and> Formula_backspace [NumberToken False ''1'', GroupToken [NumberToken False ''2'']]
       = [NumberToken False ''1'', OpenToken, NumberToken False ''2'']
   \<and> Formula_appendClose (Formula_backspace [NumberToken False ''1'', GroupToken [NumberToken False ''2'']])
       = Inr (True, [NumberToken False ''1'', GroupToken [NumberToken False ''2'']])"
proof -
  have h: "Formula_appendClose [NumberToken False ''1'', OpenToken, NumberToken False ''2'']
     = Inr (True, [NumberToken False ''1'', GroupToken [NumberToken False ''2'']])"
    by (simp add: Formula_appendClose_def Formula_appendToLastToken_def)
  from C8_backspace_group [OF h] h show ?thesis by auto
qed

subsection \<open>A decimal point that starts a number\<close>

lemma appendToLastToken_snoc:
  "Formula_appendToLastToken d action (xs @ [t]) =
     (if snd (action t) = EqToken \<and> fst (action t) \<noteq> failed then (fst (action t), [])
      else (fst (action t), xs @ [snd (action t)]))"
  by (simp add: Formula_appendToLastToken_def split: prod.splits)

lemma appendDigit_second_dot:
  "Formula_appendDigit Dot (pre @ [NumberToken False ''0.'']) = pre @ [NumberToken False ''0.'']"
  by (simp add: Formula_appendDigit_def appendToLastToken_snoc Formula_handleAppendResult_def)

lemma appendDigit_dot_fresh:
  "Formula_appendDigit Dot [] = [NumberToken False ''0.'']"
  "Formula_appendDigit Dot (xs @ [BinaryToken bop]) = (xs @ [BinaryToken bop]) @ [NumberToken False ''0.'']"
  "Formula_appendDigit Dot (xs @ [OpenToken]) = (xs @ [OpenToken]) @ [NumberToken False ''0.'']"
  "Formula_appendDigit Dot (xs @ [SymbolToken sop]) = xs @ [NumberToken False ''0.'']"
  "Formula_appendDigit Dot (xs @ [EqToken]) = [] @ [NumberToken False ''0.'']"
  by (simp_all add: Formula_appendDigit_def appendToLastToken_Nil appendToLastToken_snoc
        Formula_handleAppendResult_def NumberToken_new_def)

lemma appendDigit_creates_iff:
  "fst (Formula_appendToLastToken createAfter (Token_appendDigit digit) tokens)
           \<in> {createAfter, insertAnsAndCreate, deleteAndCreate, createBefore}
   \<longleftrightarrow> (tokens = [] \<or> (\<exists>op. last tokens = BinaryToken op) \<or> last tokens = OpenToken
           \<or> (\<exists>op. last tokens = SymbolToken op) \<or> last tokens = EqToken)"
proof (cases tokens rule: rev_cases)
  case Nil
  then show ?thesis by (simp add: appendToLastToken_Nil)
next
  case (snoc xs t)
  then show ?thesis
    by (cases t) (auto simp: appendToLastToken_snoc)
qed

text \<open>
  C10. When \<open>appendDigit('.')\<close> gets a directive on which \<open>handleAppendResult\<close> adds
  the new token, the formula is empty or ends with a binary operator, an \<open>OpenToken\<close>, a
  \<open>SymbolToken\<close> or the \<open>EqToken\<close>; the new token \<open>new NumberToken('.')\<close> has the
  string \<open>0.\<close> and the sign flag false and ends the resulting formula; a decimal point
  appended to that token is rejected with \<open>failed\<close>, and a second \<open>appendDigit('.')\<close>
  leaves the formula as it is.
\<close>

theorem C10_fresh_decimal_point:
  assumes "fst (Formula_appendToLastToken createAfter (Token_appendDigit Dot) tokens)
             \<in> {createAfter, insertAnsAndCreate, deleteAndCreate, createBefore}"
  shows "(tokens = [] \<or> (\<exists>op. last tokens = BinaryToken op) \<or> last tokens = OpenToken
           \<or> (\<exists>op. last tokens = SymbolToken op) \<or> last tokens = EqToken)
         \<and> NumberToken_new Dot = NumberToken False ''0.''
         \<and> (\<exists>pre. Formula_appendDigit Dot tokens = pre @ [NumberToken_new Dot])
         \<and> Token_appendDigit Dot (NumberToken_new Dot) = (failed, NumberToken_new Dot)
         \<and> Formula_appendDigit Dot (Formula_appendDigit Dot tokens) = Formula_appendDigit Dot tokens"
proof -
  from assms have c: "tokens = [] \<or> (\<exists>op. last tokens = BinaryToken op) \<or> last tokens = OpenToken
           \<or> (\<exists>op. last tokens = SymbolToken op) \<or> last tokens = EqToken"
    by (simp only: appendDigit_creates_iff)
  have "\<exists>pre. Formula_appendDigit Dot tokens = pre @ [NumberToken False ''0.'']"
  proof (cases tokens rule: rev_cases)
    case Nil
    then show ?thesis by (simp add: appendDigit_dot_fresh)
  next
    case (snoc xs t)
    with c show ?thesis
      by (cases t) (auto simp only: appendDigit_dot_fresh last_snoc Token.distinct Token.inject)
  qed
  then obtain pre where p: "Formula_appendDigit Dot tokens = pre @ [NumberToken False ''0.'']" ..
  have n: "NumberToken_new Dot = NumberToken False ''0.''" by (simp add: NumberToken_new_def)
  from c p n appendDigit_second_dot[of pre] show ?thesis by simp
qed

theorem C10_fresh_decimal_point_witness:
  "fst (Formula_appendToLastToken createAfter (Token_appendDigit Dot)
          [NumberToken False ''1'', BinaryToken op_add])
     \<in> {createAfter, insertAnsAndCreate, deleteAndCreate, createBefore}
   \<and> (\<exists>pre. Formula_appendDigit Dot [NumberToken False ''1'', BinaryToken op_add]
          = pre @ [NumberToken False ''0.''])
   \<and> Formula_appendDigit Dot (Formula_appendDigit Dot [NumberToken False ''1'', BinaryToken op_add])
       = Formula_appendDigit Dot [NumberToken False ''1'', BinaryToken op_add]"
proof -
  have h: "fst (Formula_appendToLastToken createAfter (Token_appendDigit Dot)
          [NumberToken False ''1'', BinaryToken op_add])
     \<in> {createAfter, insertAnsAndCreate, deleteAndCreate, createBefore}"
    by (simp add: Formula_appendToLastToken_def)
  from C10_fresh_decimal_point [OF h] h show ?thesis
    by (simp add: NumberToken_new_def)
qed

subsection \<open>The serialization round trip\<close>

lemma binOpOfString_binOpString: "binOpOfString (binOpString op) = Some op"
  by (cases op) (simp_all add: binOpOfString_def)

lemma unOpOfString_unOpString: "unOpOfString (unOpString op) = Some op"
  by (cases op) (simp_all add: unOpOfString_def)

lemma symOpOfString_symOpString: "symOpOfString (symOpString op) = Some op"
  by (cases op) (simp_all add: symOpOfString_def)

lemma deserializeTokens_map:
  "(\<And>t. t \<in> set tokens \<Longrightarrow> deserializeToken (serializeToken t) = Inr t)
   \<Longrightarrow> deserializeTokens (map serializeToken tokens) = Inr tokens"
  by (induction tokens) simp_all

lemma deserialize_serialize: "deserializeToken (serializeToken t) = Inr t"
proof (induction t)
  case (GroupToken tokens)
  then show ?case by (simp add: deserializeTokens_map)
qed (simp_all add: binOpOfString_binOpString unOpOfString_unOpString symOpOfString_symOpString)

text \<open>
  C1. For every token \<open>t\<close> (a number with any sign flag and string, any operator or
  symbol, a group of any tokens, the open and the equals marker),
  \<open>deserializeToken (serializeToken t)\<close> does not throw and returns a token equal to
  \<open>t\<close> field by field. So, with any runtime, environment and arguments, its evaluation
  gives the same result as that of \<open>t\<close> (the same number, or the same error for a
  marker), and it renders the same fragments. The same holds for a sequence of tokens,
  serialized token by token as \<open>saveAns\<close> and \<open>GroupToken.serialize\<close> do, evaluated
  as \<open>refreshDisplay\<close> does (as a \<open>GroupToken\<close>) and rendered as the formula is.
\<close>

theorem C1_serialize_roundtrip:
  "deserializeToken (serializeToken t) = Inr t
   \<and> (case deserializeToken (serializeToken t) of
        Inl e \<Rightarrow> False
      | Inr t' \<Rightarrow> evaluate R env t' args = evaluate R env t args
                \<and> Token_renderInto t' result = Token_renderInto t result)
   \<and> (case deserializeTokens (map serializeToken tokens) of
        Inl e \<Rightarrow> False
      | Inr tokens' \<Rightarrow>
          tokens' = tokens
          \<and> evaluate R env (GroupToken tokens') args = evaluate R env (GroupToken tokens) args
          \<and> Formula_renderInto tokens' result = Formula_renderInto tokens result)"
  by (simp add: deserialize_serialize deserializeTokens_map)

subsection \<open>Precedence and associativity\<close>

























subsection \<open>Invariants of the reachable formulas\<close>

lemma allPlain_simps [simp]:
  "allPlain []"
  "allPlain (x # xs) \<longleftrightarrow> plain x \<and> allPlain xs"
  "allPlain (xs @ ys) \<longleftrightarrow> allPlain xs \<and> allPlain ys"
  by (auto simp: allPlain_def)

lemma plain_not_containsEq: "plain t \<Longrightarrow> \<not> containsEq t"
  by (induction t) auto

lemma digitString_nonempty [simp]: "digitString digit \<noteq> []"
  by (cases digit) simp_all

lemma allPlain_new [simp]: "plain (NumberToken_new digit)"
  by (simp add: NumberToken_new_def)

lemma allPlain_appendDigit: "allPlain tokens \<Longrightarrow> allPlain (Formula_appendDigit digit tokens)"
proof (cases tokens rule: rev_cases)
  case Nil
  then show ?thesis
    by (simp add: Formula_appendDigit_def appendToLastToken_Nil Formula_handleAppendResult_def)
next
  case (snoc xs t)
  assume "allPlain tokens"
  with snoc show ?thesis
    by (cases t)
       (simp_all add: Formula_appendDigit_def appendToLastToken_snoc Formula_handleAppendResult_def)
qed

lemma allPlain_appendBinary: "allPlain tokens \<Longrightarrow> allPlain (Formula_appendBinary bop tokens)"
proof (cases tokens rule: rev_cases)
  case Nil
  then show ?thesis
    by (simp add: Formula_appendBinary_def appendToLastToken_Nil Formula_handleAppendResult_def)
next
  case (snoc xs t)
  assume "allPlain tokens"
  with snoc show ?thesis
    by (cases t)
       (simp_all add: Formula_appendBinary_def appendToLastToken_snoc Formula_handleAppendResult_def)
qed

lemma allPlain_appendUnary: "allPlain tokens \<Longrightarrow> allPlain (Formula_appendUnary uop tokens)"
proof (cases tokens rule: rev_cases)
  case Nil
  then show ?thesis
    by (simp add: Formula_appendUnary_def appendToLastToken_Nil Formula_handleAppendResult_def)
next
  case (snoc xs t)
  assume "allPlain tokens"
  with snoc show ?thesis
    by (cases t)
       (simp_all add: Formula_appendUnary_def appendToLastToken_snoc Formula_handleAppendResult_def)
qed

lemma allPlain_appendSymbol: "allPlain tokens \<Longrightarrow> allPlain (Formula_appendSymbol sop tokens)"
proof (cases tokens rule: rev_cases)
  case Nil
  then show ?thesis
    by (simp add: Formula_appendSymbol_def appendToLastToken_Nil Formula_handleAppendResult_def)
next
  case (snoc xs t)
  assume "allPlain tokens"
  with snoc show ?thesis
    by (cases t)
       (simp_all add: Formula_appendSymbol_def appendToLastToken_snoc Formula_handleAppendResult_def)
qed

lemma allPlain_appendOpen: "allPlain tokens \<Longrightarrow> allPlain (Formula_appendOpen tokens)"
proof (cases tokens rule: rev_cases)
  case Nil
  then show ?thesis
    by (simp add: Formula_appendOpen_def appendToLastToken_Nil Formula_handleAppendResult_def)
next
  case (snoc xs t)
  assume "allPlain tokens"
  with snoc show ?thesis
    by (cases t)
       (simp_all add: Formula_appendOpen_def appendToLastToken_snoc Formula_handleAppendResult_def)
qed

lemma allPlain_backspace: "allPlain tokens \<Longrightarrow> allPlain (Formula_backspace tokens)"
proof (cases tokens rule: rev_cases)
  case Nil
  then show ?thesis by (simp add: Formula_backspace_def)
next
  case (snoc xs t)
  assume "allPlain tokens"
  with snoc show ?thesis
    by (cases t) (auto simp: Formula_backspace_def allPlain_def)
qed

lemma appendClose_cases:
  "Formula_appendClose tokens = Inr (didClose, tokens') \<Longrightarrow>
     (\<not> didClose \<and> tokens' = tokens)
     \<or> (didClose \<and> (\<exists>pre post. tokens = pre @ OpenToken # post \<and> tokens' = pre @ [GroupToken post]
           \<and> post \<noteq> [] \<and> fst (Token_appendClose (last post)) = createAfter))"
proof (cases didClose)
  case True
  assume "Formula_appendClose tokens = Inr (didClose, tokens')"
  with True have "Formula_appendClose tokens = Inr (True, tokens')" by simp
  from appendClose_success[OF this] True show ?thesis by auto
next
  case False
  assume "Formula_appendClose tokens = Inr (didClose, tokens')"
  with False show ?thesis
    by (auto simp: appendClose_char split: if_splits option.splits)
qed

lemma allPlain_appendClose:
  "allPlain tokens \<Longrightarrow> Formula_appendClose tokens = Inr (didClose, tokens') \<Longrightarrow> allPlain tokens'"
  by (drule appendClose_cases) (auto simp: allPlain_def)

lemma closeAll_preserves:
  assumes step: "\<And>ts didClose ts'. P ts \<Longrightarrow> Formula_appendClose ts = Inr (didClose, ts') \<Longrightarrow> P ts'"
  shows "P tokens \<Longrightarrow> Formula_closeAll tokens = Inr tokens' \<Longrightarrow> P tokens'"
proof (induction tokens rule: Formula_closeAll.induct)
  case (1 tokens)
  from 1(3) obtain didClose ts where c: "Formula_appendClose tokens = Inr (didClose, ts)"
    by (subst (asm) Formula_closeAll.simps) (auto split: sum.splits)
  from step[OF 1(2) c] have e: "P ts" .
  show ?case
  proof (cases didClose)
    case True
    with 1(3) c have "Formula_closeAll ts = Inr tokens'"
      by (subst (asm) Formula_closeAll.simps) simp
    from 1(1)[OF c refl True e this] show ?thesis .
  next
    case False
    with 1(3) c have "tokens' = ts"
      by (subst (asm) Formula_closeAll.simps) simp
    with e show ?thesis by simp
  qed
qed

lemma allPlain_closeAll:
  "allPlain tokens \<Longrightarrow> Formula_closeAll tokens = Inr tokens' \<Longrightarrow> allPlain tokens'"
  by (rule closeAll_preserves[where P = allPlain]) (auto dest: allPlain_appendClose)

lemma nonempty_closeAll:
  "tokens \<noteq> [] \<Longrightarrow> Formula_closeAll tokens = Inr tokens' \<Longrightarrow> tokens' \<noteq> []"
  by (rule closeAll_preserves[where P = "\<lambda>ts. ts \<noteq> []"]) (auto dest!: appendClose_cases)

lemma eqOnlyLast_appendEq:
  assumes "eqOnlyLast tokens" "Formula_appendEq tokens = Inr tokens'"
  shows "eqOnlyLast tokens'"
proof (cases "tokens \<noteq> [] \<and> fst (Token_appendClose (last tokens)) = createAfter")
  case False
  with assms(2) have "tokens' = tokens"
    by (auto simp: Formula_appendEq_def appendToLastToken_close split: if_splits)
  with assms(1) show ?thesis by simp
next
  case True
  then have "last tokens \<noteq> EqToken" by auto
  with assms(1) True have e: "allPlain tokens" by (auto simp: eqOnlyLast_def)
  from assms(2) True obtain ts where c: "Formula_closeAll tokens = Inr ts" and t: "tokens' = ts @ [EqToken]"
    by (auto simp: Formula_appendEq_def appendToLastToken_close split: if_splits sum.splits)
  from allPlain_closeAll[OF e c] nonempty_closeAll[OF _ c] True t show ?thesis
    by (auto simp: eqOnlyLast_def)
qed

lemma eqOnlyLast_Eq_ops:
  "Formula_appendDigit digit (xs @ [EqToken]) = [NumberToken_new digit]"
  "Formula_appendBinary bop (xs @ [EqToken]) = [SymbolToken op_ans, BinaryToken bop]"
  "Formula_appendUnary uop (xs @ [EqToken]) = [SymbolToken op_ans, UnaryToken uop]"
  "Formula_appendSymbol sop (xs @ [EqToken]) = [SymbolToken sop]"
  "Formula_appendOpen (xs @ [EqToken]) = [OpenToken]"
  "Formula_backspace (xs @ [EqToken]) = xs"
  by (simp_all add: appendToLastToken_snoc Formula_appendDigit_def Formula_appendBinary_def
      Formula_appendUnary_def Formula_appendSymbol_def Formula_appendOpen_def
      Formula_backspace_def Formula_handleAppendResult_def)

lemma reachable_eqOnlyLast: "reachable tokens \<Longrightarrow> eqOnlyLast tokens"
proof (induction rule: reachable.induct)
  case created
  then show ?case by (simp add: eqOnlyLast_def)
next
  case (appendDigit tokens digit)
  then show ?case by (auto simp: eqOnlyLast_def eqOnlyLast_Eq_ops dest: allPlain_appendDigit)
next
  case (appendBinary tokens bop)
  then show ?case by (auto simp: eqOnlyLast_def eqOnlyLast_Eq_ops dest: allPlain_appendBinary)
next
  case (appendUnary tokens uop)
  then show ?case by (auto simp: eqOnlyLast_def eqOnlyLast_Eq_ops dest: allPlain_appendUnary)
next
  case (appendSymbol tokens sop)
  then show ?case by (auto simp: eqOnlyLast_def eqOnlyLast_Eq_ops dest: allPlain_appendSymbol)
next
  case (appendOpen tokens)
  then show ?case by (auto simp: eqOnlyLast_def eqOnlyLast_Eq_ops dest: allPlain_appendOpen)
next
  case (appendClose tokens didClose tokens')
  show ?case
  proof (cases "allPlain tokens")
    case True
    from allPlain_appendClose[OF True appendClose(2)] show ?thesis by (simp add: eqOnlyLast_def)
  next
    case False
    with appendClose(3) obtain xs where x: "tokens = xs @ [EqToken]" by (auto simp: eqOnlyLast_def)
    with appendClose(2) have "tokens' = tokens"
      by (simp add: Formula_appendClose_def appendToLastToken_close)
    with appendClose(3) show ?thesis by simp
  qed
next
  case (backspace tokens)
  then show ?case by (auto simp: eqOnlyLast_def eqOnlyLast_Eq_ops dest: allPlain_backspace)
next
  case (appendEq tokens tokens')
  then show ?case by (auto intro: eqOnlyLast_appendEq)
qed


lemma leadingBinary_append [simp]:
  "leadingBinary (xs @ ys) = (if xs = [] then leadingBinary ys else leadingBinary xs)"
  by (cases xs rule: leadingBinary.cases) simp_all

lemma lb_appendDigit: "\<not> leadingBinary tokens \<Longrightarrow> \<not> leadingBinary (Formula_appendDigit digit tokens)"
proof (cases tokens rule: rev_cases)
  case Nil
  then show ?thesis
    by (simp add: Formula_appendDigit_def appendToLastToken_Nil Formula_handleAppendResult_def
        NumberToken_new_def)
next
  case (snoc xs t)
  assume "\<not> leadingBinary tokens"
  with snoc show ?thesis
    by (cases t)
       (simp_all add: Formula_appendDigit_def appendToLastToken_snoc Formula_handleAppendResult_def
          NumberToken_new_def split: if_splits)
qed

lemma lb_appendBinary: "\<not> leadingBinary tokens \<Longrightarrow> \<not> leadingBinary (Formula_appendBinary bop tokens)"
proof (cases tokens rule: rev_cases)
  case Nil
  then show ?thesis
    by (simp add: Formula_appendBinary_def appendToLastToken_Nil Formula_handleAppendResult_def)
next
  case (snoc xs t)
  assume "\<not> leadingBinary tokens"
  with snoc show ?thesis
    by (cases t)
       (simp_all add: Formula_appendBinary_def appendToLastToken_snoc Formula_handleAppendResult_def
          split: if_splits)
qed

lemma lb_appendUnary: "\<not> leadingBinary tokens \<Longrightarrow> \<not> leadingBinary (Formula_appendUnary uop tokens)"
proof (cases tokens rule: rev_cases)
  case Nil
  then show ?thesis
    by (simp add: Formula_appendUnary_def appendToLastToken_Nil Formula_handleAppendResult_def)
next
  case (snoc xs t)
  assume "\<not> leadingBinary tokens"
  with snoc show ?thesis
    by (cases t)
       (simp_all add: Formula_appendUnary_def appendToLastToken_snoc Formula_handleAppendResult_def
          split: if_splits)
qed

lemma lb_appendSymbol: "\<not> leadingBinary tokens \<Longrightarrow> \<not> leadingBinary (Formula_appendSymbol sop tokens)"
proof (cases tokens rule: rev_cases)
  case Nil
  then show ?thesis
    by (simp add: Formula_appendSymbol_def appendToLastToken_Nil Formula_handleAppendResult_def)
next
  case (snoc xs t)
  assume "\<not> leadingBinary tokens"
  with snoc show ?thesis
    by (cases t)
       (simp_all add: Formula_appendSymbol_def appendToLastToken_snoc Formula_handleAppendResult_def
          split: if_splits)
qed

lemma lb_appendOpen: "\<not> leadingBinary tokens \<Longrightarrow> \<not> leadingBinary (Formula_appendOpen tokens)"
proof (cases tokens rule: rev_cases)
  case Nil
  then show ?thesis
    by (simp add: Formula_appendOpen_def appendToLastToken_Nil Formula_handleAppendResult_def)
next
  case (snoc xs t)
  assume "\<not> leadingBinary tokens"
  with snoc show ?thesis
    by (cases t)
       (simp_all add: Formula_appendOpen_def appendToLastToken_snoc Formula_handleAppendResult_def
          split: if_splits)
qed

lemma lb_backspace: "\<not> leadingBinary tokens \<Longrightarrow> \<not> leadingBinary (Formula_backspace tokens)"
proof (cases tokens rule: rev_cases)
  case Nil
  then show ?thesis by (simp add: Formula_backspace_def)
next
  case (snoc xs t)
  assume "\<not> leadingBinary tokens"
  with snoc show ?thesis
    by (cases t) (simp_all add: Formula_backspace_def split: if_splits)
qed

lemma lb_appendClose:
  "\<not> leadingBinary tokens \<Longrightarrow> Formula_appendClose tokens = Inr (didClose, tokens')
   \<Longrightarrow> \<not> leadingBinary tokens'"
  by (drule appendClose_cases) (auto split: if_splits)

lemma lb_closeAll:
  "\<not> leadingBinary tokens \<Longrightarrow> Formula_closeAll tokens = Inr tokens' \<Longrightarrow> \<not> leadingBinary tokens'"
  by (rule closeAll_preserves[where P = "\<lambda>ts. \<not> leadingBinary ts"]) (auto dest: lb_appendClose)

lemma lb_appendEq:
  assumes "\<not> leadingBinary tokens" "Formula_appendEq tokens = Inr tokens'"
  shows "\<not> leadingBinary tokens'"
proof (cases "tokens \<noteq> [] \<and> fst (Token_appendClose (last tokens)) = createAfter")
  case False
  with assms(2) have "tokens' = tokens"
    by (auto simp: Formula_appendEq_def appendToLastToken_close split: if_splits)
  with assms(1) show ?thesis by simp
next
  case True
  from assms(2) True obtain ts where c: "Formula_closeAll tokens = Inr ts" and t: "tokens' = ts @ [EqToken]"
    by (auto simp: Formula_appendEq_def appendToLastToken_close split: if_splits sum.splits)
  from lb_closeAll[OF assms(1) c] t show ?thesis by simp
qed

lemma reachable_not_leadingBinary: "reachable tokens \<Longrightarrow> \<not> leadingBinary tokens"
proof (induction rule: reachable.induct)
  case created
  then show ?case by simp
next
  case (appendDigit tokens digit)
  then show ?case by (simp add: lb_appendDigit)
next
  case (appendBinary tokens bop)
  then show ?case by (simp add: lb_appendBinary)
next
  case (appendUnary tokens uop)
  then show ?case by (simp add: lb_appendUnary)
next
  case (appendSymbol tokens sop)
  then show ?case by (simp add: lb_appendSymbol)
next
  case (appendOpen tokens)
  then show ?case by (simp add: lb_appendOpen)
next
  case (appendClose tokens didClose tokens')
  from lb_appendClose[OF appendClose(3) appendClose(2)] show ?case .
next
  case (backspace tokens)
  then show ?case by (simp add: lb_backspace)
next
  case (appendEq tokens tokens')
  from lb_appendEq[OF appendEq(3) appendEq(2)] show ?case .
qed

subsection \<open>The preview window\<close>

text \<open>
  When the first token is not a binary operator, the loop of \<open>partial\<close> returns: each
  round returns, or continues at a smaller \<open>start\<close>. A binary operator at index 0 is
  the one place where it runs forever.
\<close>

lemma partial_inner_False: "partial_inner tokens prec n = (False, s) \<Longrightarrow> s = 0"
  by (induction n) (auto split: if_splits)

lemma precedence_binary:
  "Token_precedence t \<in> {prec_add, prec_mul, prec_pow} \<Longrightarrow> \<exists>op. t = BinaryToken op"
  by (cases t) auto

lemma partial_loop_returns:
  assumes "\<not> leadingBinary tokens"
  shows "start < int (length tokens) \<Longrightarrow> \<exists>y. partial_loop tokens start end' = Some y"
proof (induction "nat (start + 1)" arbitrary: start end' rule: less_induct)
  case less
  show ?case
  proof (cases "0 \<le> start")
    case False
    then show ?thesis by (subst partial_loop.simps) simp
  next
    case True
    have rec: "\<And>s e. s < start \<Longrightarrow> \<exists>y. partial_loop tokens s e = Some y"
      using less(1) less(2) True by simp
    show ?thesis
    proof (cases "Token_precedence (tokens ! nat start) \<in> {prec_add, prec_mul, prec_pow}")
      case False
      with True rec[of "start - 1"] show ?thesis
        by (subst partial_loop.simps) (cases "Token_precedence (tokens ! nat start)"; simp)
    next
      case b: True
      obtain broke s where i: "partial_inner tokens (Token_precedence (tokens ! nat start)) (nat start) = (broke, s)"
        by (cases "partial_inner tokens (Token_precedence (tokens ! nat start)) (nat start)")
      show ?thesis
      proof (cases broke)
        case True
        with i b \<open>0 \<le> start\<close> show ?thesis
          by (subst partial_loop.simps) (auto simp: Let_def)
      next
        case False
        with i have s: "s = 0" by (auto dest: partial_inner_False)
        have "start \<noteq> 0"
        proof
          assume z: "start = 0"
          from precedence_binary[OF b] z obtain op where "tokens ! 0 = BinaryToken op" by auto
          moreover from less(2) z have "tokens \<noteq> []" by auto
          ultimately have "leadingBinary tokens" by (cases tokens) auto
          with assms show False by simp
        qed
        with True have "0 < start" by simp
        from rec[OF this] obtain y where "partial_loop tokens 0 (end' - 1) = Some y" by blast
        with False i s b \<open>0 \<le> start\<close> show ?thesis
          by (subst partial_loop.simps) (auto simp: Let_def)
      qed
    qed
  qed
qed

lemma partial_returns:
  "\<not> leadingBinary tokens \<Longrightarrow> \<exists>r. Formula_partial tokens = Some r"
  using partial_loop_returns[of tokens "int (length tokens) - 1" "int (length tokens)"]
  by (auto simp: Formula_partial_def Let_def)

lemma partial_loop_diverges:
  "partial_loop [BinaryToken op] 0 end' = None"
proof (rule ccontr)
  assume "partial_loop [BinaryToken op] 0 end' \<noteq> None"
  then obtain y where y: "partial_loop [BinaryToken op] 0 end' = Some y" by auto
  have "\<not> ([BinaryToken op] = [BinaryToken op] \<and> (0::int) = 0)"
  proof (rule partial_loop.raw_induct[where P = "\<lambda>ts s e y. \<not> (ts = [BinaryToken op] \<and> s = 0)", OF _ y], goal_cases)
    case (1 loop tokens start end' y)
    show ?case
    proof
      assume a: "tokens = [BinaryToken op] \<and> start = 0"
      with 1(2) have "loop [BinaryToken op] 0 (end' - 1) = Some y"
        by (cases op) (simp_all add: Let_def)
      from 1(1)[OF this] show False by simp
    qed
  qed
  then show False by simp
qed


lemma partial_diverges: "Formula_partial [BinaryToken op] = None"
  by (simp add: Formula_partial_def partial_loop_diverges)

lemma partial_loop_end:
  assumes "partial_loop tokens start end' = Some y"
  shows "snd y \<le> end'"
proof (rule partial_loop.raw_induct[where P = "\<lambda>ts s e y. snd y \<le> e", OF _ assms], goal_cases)
  case (1 loop tokens start end' y)
  have IH: "\<And>s e y. loop tokens s e = Some y \<Longrightarrow> snd y \<le> e" by (rule 1(1))
  from 1(2) show ?case
    by (auto simp: Let_def split: if_splits Precedence.splits prod.splits dest!: IH)
qed

lemma partial_Eq:
  "Formula_partial (xs @ [EqToken]) = Some (if xs = [] then [NumberToken_new D0] else xs)"
  by (simp add: Formula_partial_def partial_loop.simps)

lemma partial_loop_opens:
  "k \<le> n \<Longrightarrow> partial_loop (replicate n OpenToken) (int k - 1) (int k) = Some (-1, 0)"
proof (induction k)
  case 0
  then show ?case by (simp add: partial_loop.simps)
next
  case (Suc k)
  then have "partial_loop (replicate n OpenToken) (int k - 1) (int k) = Some (-1, 0)" by simp
  with Suc.prems show ?case
    by (subst partial_loop.simps) simp
qed

lemma partial_opens: "Formula_partial (replicate n OpenToken) = Some [NumberToken_new D0]"
  using partial_loop_opens[of n n] by (simp add: Formula_partial_def)

lemma partial_nonempty: "Formula_partial tokens \<noteq> Some []"
proof
  assume a: "Formula_partial tokens = Some []"
  then obtain s e where l: "partial_loop tokens (int (length tokens) - 1) (int (length tokens)) = Some (s, e)"
    by (auto simp: Formula_partial_def split: option.splits)
  from partial_loop_end[OF l] have e: "e \<le> int (length tokens)" by simp
  from a l e show False
    by (auto simp: Formula_partial_def NumberToken_new_def Let_def split: if_splits)
qed

subsection \<open>The equals marker\<close>

lemma last_Eq_in_set: "tokens \<noteq> [] \<Longrightarrow> last tokens = EqToken \<Longrightarrow> EqToken \<in> set tokens"
  by (cases tokens rule: rev_cases) auto

lemma allPlain_no_Eq_mem: "allPlain tokens \<Longrightarrow> EqToken \<notin> set tokens"
  by (auto simp: allPlain_def)

lemma allPlain_no_Eq: "allPlain xs \<Longrightarrow> filter (\<lambda>t. t = EqToken) xs = []"
  by (induction xs) auto

text \<open>
  C4. In every formula reachable from the empty one by the editing operations, no token
  before the last is or contains an \<open>EqToken\<close>, the last token is the \<open>EqToken\<close>
  itself or contains none, so the \<open>EqToken\<close> occurs at most once, as the last token of
  the top-level sequence and in no group; and \<open>isComplete\<close> is true exactly when the
  sequence is not empty and its last token is the \<open>EqToken\<close>, which is exactly when
  the formula holds an \<open>EqToken\<close>.
\<close>

theorem C4_equals_last:
  assumes "reachable tokens"
  shows "(\<forall>t \<in> set (butlast tokens). \<not> containsEq t)
       \<and> (\<forall>t \<in> set tokens. t = EqToken \<or> \<not> containsEq t)
       \<and> length (filter (\<lambda>t. t = EqToken) tokens) \<le> 1
       \<and> (Formula_isComplete tokens \<longleftrightarrow> tokens \<noteq> [] \<and> last tokens = EqToken)
       \<and> (Formula_isComplete tokens \<longleftrightarrow> EqToken \<in> set tokens)"
proof -
  from reachable_eqOnlyLast[OF assms] consider
    (free) "allPlain tokens" | (eq) xs where "tokens = xs @ [EqToken]" "allPlain xs"
    by (auto simp: eqOnlyLast_def)
  then show ?thesis
  proof cases
    case free
    then have n: "\<forall>t \<in> set tokens. \<not> containsEq t"
      by (auto simp: allPlain_def dest: plain_not_containsEq)
    then have "EqToken \<notin> set tokens" by auto
    moreover then have "tokens \<noteq> [] \<longrightarrow> last tokens \<noteq> EqToken"
      using last_Eq_in_set[of tokens] by blast
    moreover from n have "\<forall>t \<in> set (butlast tokens). \<not> containsEq t"
      by (auto dest: in_set_butlastD)
    ultimately show ?thesis using n allPlain_no_Eq[OF free]
      by (auto simp: Formula_isComplete_def)
  next
    case eq
    then show ?thesis
      by (auto simp: Formula_isComplete_def allPlain_def allPlain_no_Eq dest: plain_not_containsEq)
  qed
qed

theorem C4_equals_last_witness:
  "reachable [NumberToken False ''2'', EqToken]
   \<and> Formula_isComplete [NumberToken False ''2'', EqToken]
   \<and> length (filter (\<lambda>t. t = EqToken) [NumberToken False ''2'', EqToken]) \<le> 1
   \<and> \<not> containsEq (NumberToken False ''2'')"
proof -
  have d: "Formula_appendDigit D2 [] = [NumberToken False ''2'']"
    by (simp add: Formula_appendDigit_def appendToLastToken_Nil Formula_handleAppendResult_def
        NumberToken_new_def)
  have c: "Formula_closeAll [NumberToken False ''2''] = Inr [NumberToken False ''2'']"
    by (subst Formula_closeAll.simps) (simp add: Formula_appendClose_def Formula_appendToLastToken_def)
  have e: "Formula_appendEq [NumberToken False ''2''] = Inr [NumberToken False ''2'', EqToken]"
    by (simp add: Formula_appendEq_def Formula_appendToLastToken_def c)
  have "reachable (Formula_appendDigit D2 [])" by (rule reachable.appendDigit[OF reachable.created])
  then have "reachable [NumberToken False ''2'']" by (simp only: d)
  then have r: "reachable [NumberToken False ''2'', EqToken]" using e by (rule reachable.appendEq)
  from C4_equals_last [OF r] r show ?thesis by simp
qed


subsection \<open>The result of \<open>partial\<close>\<close>

lemma reachable_complete:
  assumes "reachable tokens" "tokens \<noteq> []" "last tokens = EqToken"
  shows "\<exists>xs. tokens = xs @ [EqToken] \<and> xs \<noteq> []"
proof -
  from assms(2,3) have "EqToken \<in> set tokens" by (rule last_Eq_in_set)
  then have "\<not> allPlain tokens" using allPlain_no_Eq_mem[of tokens] by blast
  with reachable_eqOnlyLast[OF assms(1)] show ?thesis by (auto simp: eqOnlyLast_def)
qed

text \<open>
  C5. On a sequence that ends with the \<open>EqToken\<close>, \<open>partial\<close> returns the sequence
  without the marker, and the number \<open>0\<close> when nothing comes before the marker; every
  complete formula the editor builds has a token before the marker, so there it returns
  the whole sequence without the marker. Whenever the loop ends with an empty window
  (\<open>end\<close> not above \<open>start\<close> after \<open>start\<close> is raised to 0), as it does on the empty
  formula and on a formula of \<open>OpenToken\<close>s only, \<open>partial\<close> returns the single token
  \<open>new NumberToken('0')\<close>, which evaluates (alone, and as the preview does, in a group)
  to the number the runtime reads the string \<open>0\<close> as, zero. \<open>partial\<close> never returns
  an empty list, and on every formula the editor builds it does return.
\<close>

theorem C5_partial:
  assumes "js_parseFloat R ''0'' = js_literal R 0"
  shows "Formula_partial (xs @ [EqToken]) = Some (if xs = [] then [NumberToken_new D0] else xs)
       \<and> (reachable tokens \<and> tokens \<noteq> [] \<and> last tokens = EqToken
            \<longrightarrow> Formula_partial tokens = Some (butlast tokens))
       \<and> Formula_partial [] = Some [NumberToken_new D0]
       \<and> Formula_partial (replicate n OpenToken) = Some [NumberToken_new D0]
       \<and> (\<forall>start end'.
             partial_loop tokens (int (length tokens) - 1) (int (length tokens)) = Some (start, end')
             \<and> end' \<le> max 0 start
            \<longrightarrow> Formula_partial tokens = Some [NumberToken_new D0])
       \<and> Formula_partial tokens \<noteq> Some []
       \<and> (reachable tokens \<longrightarrow> (\<exists>r. Formula_partial tokens = Some r))
       \<and> evaluate R env (NumberToken_new D0) args = Inr (Number (js_literal R 0))
       \<and> evaluate R env (GroupToken [NumberToken_new D0]) args = Inr (Number (js_literal R 0))"
proof (intro conjI impI allI)
  show "Formula_partial (xs @ [EqToken]) = Some (if xs = [] then [NumberToken_new D0] else xs)"
    by (rule partial_Eq)
next
  assume "reachable tokens \<and> tokens \<noteq> [] \<and> last tokens = EqToken"
  then obtain ys where "tokens = ys @ [EqToken]" "ys \<noteq> []"
    using reachable_complete[of tokens] by auto
  then show "Formula_partial tokens = Some (butlast tokens)" by (simp add: partial_Eq)
next
  show "Formula_partial [] = Some [NumberToken_new D0]" using partial_opens[of 0] by simp
next
  show "Formula_partial (replicate n OpenToken) = Some [NumberToken_new D0]" by (rule partial_opens)
next
  fix start end'
  assume "partial_loop tokens (int (length tokens) - 1) (int (length tokens)) = Some (start, end')
             \<and> end' \<le> max 0 start"
  then show "Formula_partial tokens = Some [NumberToken_new D0]"
    by (auto simp: Formula_partial_def Let_def)
next
  show "Formula_partial tokens \<noteq> Some []" by (rule partial_nonempty)
next
  assume "reachable tokens"
  then show "\<exists>r. Formula_partial tokens = Some r"
    by (intro partial_returns reachable_not_leadingBinary)
next
  show "evaluate R env (NumberToken_new D0) args = Inr (Number (js_literal R 0))"
    using assms by (simp add: NumberToken_new_def)
next
  show "evaluate R env (GroupToken [NumberToken_new D0]) args = Inr (Number (js_literal R 0))"
    using assms by (simp add: NumberToken_new_def toRPN_def arg_def)
qed

theorem C5_partial_witness:
  "js_parseFloat exactRuntime ''0'' = js_literal exactRuntime 0
   \<and> reachable [NumberToken False ''2'', EqToken]
   \<and> Formula_partial [NumberToken False ''2'', EqToken] = Some [NumberToken False ''2'']
   \<and> partial_loop [OpenToken] (int (length [OpenToken]) - 1) (int (length [OpenToken])) = Some (- 1, 0)
   \<and> Formula_partial [OpenToken] = Some [NumberToken False ''0'']
   \<and> evaluate exactRuntime emptyEnvironment (GroupToken [NumberToken False ''0'']) [] = Inr (Number (Some 0))"
proof -
  have h: "js_parseFloat exactRuntime ''0'' = js_literal exactRuntime 0"
    by (simp add: exactRuntime_def exact_parseFloat_def digitOfChar_def)
  have d: "Formula_appendDigit D2 [] = [NumberToken False ''2'']"
    by (simp add: Formula_appendDigit_def appendToLastToken_Nil Formula_handleAppendResult_def
        NumberToken_new_def)
  have c: "Formula_closeAll [NumberToken False ''2''] = Inr [NumberToken False ''2'']"
    by (subst Formula_closeAll.simps) (simp add: Formula_appendClose_def Formula_appendToLastToken_def)
  have e: "Formula_appendEq [NumberToken False ''2''] = Inr [NumberToken False ''2'', EqToken]"
    by (simp add: Formula_appendEq_def Formula_appendToLastToken_def c)
  have "reachable (Formula_appendDigit D2 [])" by (rule reachable.appendDigit[OF reachable.created])
  then have "reachable [NumberToken False ''2'']" by (simp only: d)
  then have r: "reachable [NumberToken False ''2'', EqToken]" using e by (rule reachable.appendEq)
  have l: "partial_loop [OpenToken] (int (length [OpenToken]) - 1) (int (length [OpenToken])) = Some (- 1, 0)"
    using partial_loop_opens[of 1 1] by simp
  have z: "js_literal exactRuntime 0 = Some 0" by (simp add: exactRuntime_def)
  from C5_partial [OF h, of "[]" "[NumberToken False ''2'', EqToken]" 0 emptyEnvironment "[]"]
    C5_partial [OF h, of "[]" "[OpenToken]" 0 emptyEnvironment "[]"] h r l z
  show ?thesis by (simp add: NumberToken_new_def)
qed

subsection \<open>Backspace on a number\<close>

lemma reachable_number_nonempty:
  assumes "reachable (pre @ [NumberToken negative number])"
  shows "number \<noteq> []"
proof -
  from reachable_eqOnlyLast[OF assms] have "allPlain (pre @ [NumberToken negative number])"
    by (auto simp: eqOnlyLast_def)
  then show ?thesis by simp
qed

text \<open>
  C9. On a formula that ends with a \<open>NumberToken\<close>, \<open>backspace\<close> keeps the token with
  its string shortened by the last character when the string has more than one
  character, and removes the token otherwise. In a formula the editor builds the string
  of a number has at least one character, so there the token is removed exactly when the
  number holds a single digit (one character of the type \<open>Digit\<close>). The tokens before the
  number and its sign flag stay as they are.
\<close>

theorem C9_backspace_number:
  "Formula_backspace (pre @ [NumberToken negative number]) =
     (if length number > 1 then pre @ [NumberToken negative (butlast number)] else pre)
   \<and> (reachable (pre @ [NumberToken negative number]) \<longrightarrow>
        (length number = 1 \<and> Formula_backspace (pre @ [NumberToken negative number]) = pre)
        \<or> (length number > 1 \<and> length (butlast number) = length number - 1
            \<and> Formula_backspace (pre @ [NumberToken negative number])
                = pre @ [NumberToken negative (butlast number)]))"
proof -
  have b: "Formula_backspace (pre @ [NumberToken negative number]) =
     (if length number > 1 then pre @ [NumberToken negative (butlast number)] else pre)"
    by (simp add: Formula_backspace_def butlast_conv_take)
  have "reachable (pre @ [NumberToken negative number]) \<Longrightarrow> length number = 1 \<or> length number > 1"
    using reachable_number_nonempty[of pre negative number] by (cases number) auto
  with b show ?thesis by auto
qed

theorem C9_backspace_number_witness:
  "reachable [NumberToken False ''2'']
   \<and> Formula_backspace [NumberToken False ''2''] = []
   \<and> reachable [NumberToken False ''23'']
   \<and> Formula_backspace [NumberToken False ''23''] = [NumberToken False ''2'']"
proof -
  have d: "Formula_appendDigit D2 [] = [NumberToken False ''2'']"
    by (simp add: Formula_appendDigit_def appendToLastToken_Nil Formula_handleAppendResult_def
        NumberToken_new_def)
  have d': "Formula_appendDigit D3 [NumberToken False ''2''] = [NumberToken False ''23'']"
    by (simp add: Formula_appendDigit_def Formula_appendToLastToken_def Formula_handleAppendResult_def)
  have "reachable (Formula_appendDigit D2 [])" by (rule reachable.appendDigit[OF reachable.created])
  then have r: "reachable [NumberToken False ''2'']" by (simp only: d)
  then have "reachable (Formula_appendDigit D3 [NumberToken False ''2''])"
    by (rule reachable.appendDigit)
  then have r': "reachable [NumberToken False ''23'']" by (simp only: d')
  from C9_backspace_number [of "[]" False "''2''"] C9_backspace_number [of "[]" False "''23''"] r r'
  show ?thesis by simp
qed

end
